theory Spec2Isabelle
  imports Main "HOL-Library.Sublist" "HOL-Library.Multiset" "HOL-Library.Signed_Division"
begin

section \<open>The alphabet shop vault (alphashops.des)\<close>

subsection \<open>The Lua string primitives the script uses\<close>

text \<open>
  Lua strings are byte strings, indexed from 1. Only the calls the script makes are
  modelled: \<open>string.sub(s, i, j)\<close> and \<open>string.sub(s, i)\<close> with positive indices,
  \<open>string.lower\<close> in the C locale, and \<open>string.gsub(s, pat, repl)\<close> whose pattern is one
  character that Lua's matcher reads literally (a capital letter, a space, or a lone
  \<open>-\<close>, which is only a repetition operator after another pattern item): every
  occurrence of that character is replaced. Other patterns are not modelled.
\<close>

definition string_sub :: "string \<Rightarrow> nat \<Rightarrow> nat \<Rightarrow> string" where
  "string_sub s i j = take (j - (i - 1)) (drop (i - 1) s)"

definition string_sub_from :: "string \<Rightarrow> nat \<Rightarrow> string" where
  "string_sub_from s i = drop (i - 1) s"

definition char_lower :: "char \<Rightarrow> char" where
  "char_lower c =
     (if 65 \<le> (of_char c :: nat) \<and> (of_char c :: nat) \<le> 90
      then char_of ((of_char c :: nat) + 32) else c)"

definition string_lower :: "string \<Rightarrow> string" where
  "string_lower s = map char_lower s"

definition string_gsub :: "string \<Rightarrow> string \<Rightarrow> string \<Rightarrow> string" where
  "string_gsub s pat repl = concat (map (\<lambda>c. if [c] = pat then repl else [c]) s)"

subsection \<open>The engine's random number source\<close>

text \<open>
  \<open>crawl.random2(n)\<close> is the engine's \<open>random2\<close>: a number from 0 to \<open>n - 1\<close>, and 0
  when \<open>n \<le> 1\<close> (the script's own comment: "random2 returns 0 for values <= 1").
  The script's functions take the number drawn as an argument; \<open>random2_outcomes n\<close>
  is the set of numbers the engine can draw.
\<close>

definition random2_outcomes :: "int \<Rightarrow> int set" where
  "random2_outcomes n = (if n \<le> 1 then {0} else {0..<n})"

subsection \<open>ownername\<close>

text \<open>
  \<open>one_chance_in_20\<close> is the outcome of \<open>crawl.one_chance_in(20)\<close> and \<open>made_name\<close>
  the string returned by \<open>crawl.make_name()\<close>. Lua's \<open>and\<close> asks for the coin only
  when \<open>s == "N"\<close>; the value is the first result of \<open>string.gsub\<close>, which is what the
  concatenation in the \<open>kfeat\<close> line keeps.
\<close>

definition ownername :: "string \<Rightarrow> bool \<Rightarrow> string \<Rightarrow> string" where
  "ownername s one_chance_in_20 made_name =
     (if s = ''N'' \<and> one_chance_in_20 then ''Nicolae''
      else
        let name = s @ string_sub_from (string_lower made_name) 2
        in string_gsub name '' '' '''')"

text \<open>The shop letters: the one-character strings \<open>A\<close> to \<open>Z\<close>.\<close>

definition capital_letters :: "string list" where
  "capital_letters = map (\<lambda>c. [c]) ''ABCDEFGHIJKLMNOPQRSTUVWXYZ''"

subsection \<open>shopcontents\<close>

definition shopcontents :: "string \<Rightarrow> string list" where
  "shopcontents s =
   (if s = ''A'' then [''arbalest'', ''book of alchemy'', ''book of air'',
       ''manual of air magic'', ''book of annihilations'',
       ''potion of ambrosia'', ''scroll of acquirement q:1'',
       ''scroll of amnesia'', ''staff of air'',
       ''manual of axes'', ''manual of armour'', ''wand of acid'',
       ''acid dragon scales'', ''potion of attraction'', ''book of armaments'']
    else if s = ''B'' then [''bardiche'', ''battleaxe'',
       ''book of burglary'', ''box of beasts'', ''book of blasting'',
       ''book of blood'',
       ''broad axe'', ''pair of boots'', ''potion of berserk rage'',
       ''potion of brilliance'',
       ''scroll of blinking'', ''scroll of brand weapon'',
       ''manual of bows'', ''buckler'', ''boomerang'']
    else if s = ''C'' then [''book of callings'', ''book of cantrips'',
       ''club'', ''book of changes'', ''book of conjurations'',
       ''chain mail'', ''cloak'', ''crystal plate armour'', ''potion of cancellation'',
       ''staff of cold'', ''staff of conjuration'', ''book of callings'',
       ''book of chaos'',
       ''manual of crossbows'', ''manual of conjurations'',
       ''potion of curing'', ''condenser vane'', ''wand of charming'']
    else if s = ''D'' then [''book of death'', ''book of debilitation'',
       ''book of dreams'', ''book of the dragon'', ''dagger'',
       ''demon blade'', ''demon trident'', ''demon whip'', ''dire flail'',
       ''double sword'', ''ring of dexterity'', ''manual of dodging'',
       ''staff of death'', ''wand of digging'', ''dart'', ''book of dangerous friends'',
       ''book of displacement'', ''book of decay'']
    else if s = ''E'' then [''manual of evocations'',
       ''eveningstar'', ''ring of evasion'', ''executioner's axe'',
       ''potion of experience q:1'', ''scroll of enchant armour'', ''staff of earth'',
       ''book of the earth'', ''scroll of enchant weapon'', ''manual of earth magic'',
       ''everburning encyclopedia'']
    else if s = ''F'' then [''book of fire'', ''book of flames'', ''flail'',
       ''book of frost'', ''falchion'', ''fire dragon scales'', ''potion of flight'',
       ''ring of fire'', ''scroll of fear'', ''staff of fire'', ''fen folio'',
       ''ring of flight'', ''scroll of fog'', ''wand of flame'',
       ''manual of fighting'', ''amulet of faith'', ''manual of fire magic'',
       ''fustibalus'']
    else if s = ''G'' then [''amulet of guardian spirit'', ''giant club'',
       ''giant spiked club'', ''book of geomancy'',
       ''glaive'', ''gold dragon scales'', ''grand grimoire'', ''great mace'',
       ''great sword'', ''pair of gloves'', ''great wizards, vol. ii'',
       ''great wizards, vol. vii'']
    else if s = ''H'' then [''halberd'', ''hand axe'',
       ''hand crossbow'', ''hunting sling'', ''potion of heal wounds'',
       ''potion of haste'', ''scroll of holy word'', ''manual of hexes'', ''hat'',
       ''helmet'', ''book of hexes'', ''book of the hunter'']
    else if s = ''I'' then [''ring of ice'',
       ''scroll of immolation'', ''ice dragon scales'', ''book of ice'',
       ''potion of invisibility'', ''ring of intelligence'', ''scroll of identify'',
       ''wand of iceblast'', ''manual of invocations'', ''manual of ice magic'',
       ''inescapable atlas'', ''book of iron'']
    else if s = ''J'' then [''javelin'']
    else if s = ''K'' then [''any'']
    else if s = ''L'' then [''manual of long blades'', ''large rock'',
       ''leather armour'', ''long sword'', ''potion of lignification'', ''lajatang'',
       ''longbow'', ''lightning rod'', ''book of lightning'']
    else if s = ''M'' then [''manual of maces & flails'',
       ''book of minor magic'', ''book of misfortune'', ''book of maledictions'',
       ''morningstar'', ''mace'', ''potion of magic'', ''wand of mindburst'',
       ''ring of magical power'', ''amulet of magic regeneration'', ''potion of might'',
       ''potion of mutation'', ''scroll of magic mapping'', ''book of the moon'']
    else if s = ''N'' then [''book of necromancy'',
       ''necronomicon'', ''scroll of noise'', ''manual of necromancy'']
    else if s = ''O'' then [''ozocubu's autobiography'']
    else if s = ''P'' then [''book of party tricks'', ''book of power'',
       ''pearl dragon scales'', ''phantom mirror'', ''phial of floods'',
       ''plate armour'', ''ring of poison resistance'', ''manual of polearms'',
       ''wand of polymorph'', ''ring of positive energy'', ''ring of protection'',
       ''manual of poison magic'', ''wand of paralysis'',
       ''ring of protection from fire'', ''staff of poison'',
       ''ring of protection from cold'', ''book of pain'']
    else if s = ''Q'' then [''quarterstaff'', ''quicksilver dragon scales'',
       ''quick blade'']
    else if s = ''R'' then [''amulet of reflection'',
       ''amulet of regeneration'', ''rapier'', ''ring of resist corrosion'',
       ''potion of resistance'', ''robe'', ''ring mail'', ''book of rime'']
    else if s = ''S'' then [''scarf'', ''scimitar'', ''short sword'',
       ''scale mail'', ''book of storms'', ''book of the sky'',
       ''ring of see invisible'', ''ring of slaying'', ''spear'',
       ''ring of strength'', ''manual of stealth'', ''scroll of summoning'',
       ''scythe'', ''book of spatial translocations'', ''scroll of silence'',
       ''shortbow'', ''manual of staves'', ''steam dragon scales'',
       ''shadow dragon scales'', ''storm dragon scales'', ''swamp dragon scales'',
       ''manual of short blades'', ''manual of slings'', ''manual of shields'',
       ''manual of spellcasting'', ''manual of summonings'', ''stone'',
       ''book of storms'', ''book of sloth'', ''book of the senses'',
       ''book of spectacle'', ''book of the spheres'', ''book of scorching'']
    else if s = ''T'' then [''scroll of torment'',
       ''book of transfigurations'', ''scroll of teleportation'', ''triple sword'',
       ''triple crossbow'', ''troll leather armour'', ''manual of throwing'',
       ''manual of translocations'', ''manual of transmutations'',
       ''trident'', ''throwing net'', ''tower shield'', ''tin of tremorstones'',
       ''book of the tundra'', ''book of touch'', ''there-and-back book'',
       ''trismegistus codex'']
    else if s = ''U'' then [''book of unlife'', ''manual of unarmed combat'',
       ''the unrestrained analects'']
    else if s = ''V'' then [''scroll of vulnerability'', ''book of vapours'']
    else if s = ''W'' then [''ring of wizardry'', ''book of the warp'', ''whip'',
       ''war axe'', ''ring of willpower'', ''book of winter'', ''book of weapons'',
       ''book of the wilderness'']
    else if s = ''X'' then [''piece from xom's chessboard'']
    else if s = ''Y'' then [''young poisoner's handbook'']
    else if s = ''Z'' then [''any'']
    else [''any''])"

subsection \<open>pickletter\<close>

text \<open>
  One round of the eligibility loop, for the loop index \<open>i\<close>. The count is the length
  of the item list plus one, as the source computes it, and the letter is blanked to
  \<open>-\<close> when that number is below 5.
\<close>

definition pickletter_check :: "nat \<Rightarrow> string \<Rightarrow> string" where
  "pickletter_check i alphabet =
     (let checkletter = string_sub alphabet i i;
          itemlist = shopcontents checkletter;
          itemcount = int (length itemlist);
          itemcount = itemcount + 1
      in if itemcount < 5 then string_gsub alphabet checkletter ''-''
         else alphabet)"

text \<open>
  The candidate letters left after the loop, which runs for \<open>i\<close> from 1 to
  \<open>string.len(alphabet)\<close> (read once, before the first round).
\<close>

definition pickletter_options :: string where
  "pickletter_options =
     (let alphabet = ''ABCDEFGHIJKLMNOPQRSTUVWXYZ'';
          alphabet = fold pickletter_check [1 ..< Suc (length alphabet)] alphabet
      in string_gsub alphabet ''-'' '''')"

text \<open>
  \<open>pickletter\<close>, given the number \<open>r\<close> that \<open>crawl.random2(string.len(options))\<close>
  returned.
\<close>

definition pickletter :: "int \<Rightarrow> string" where
  "pickletter r =
     (let options = pickletter_options;
          number = r + 1;
          letter = string_sub options (nat number) (nat number)
      in letter)"

subsection \<open>The vault's main chunk: how many items the shop stocks\<close>

definition maxcount :: "string \<Rightarrow> int" where
  "maxcount letter = (let itemcount = int (length (shopcontents letter)) in min 15 itemcount)"

text \<open>
  \<open>shopcount letter r\<close> is the final value of the local \<open>shopcount\<close>, given the number
  \<open>r\<close> that \<open>crawl.random2(maxcount - 4)\<close> returned.
\<close>

definition shopcount :: "string \<Rightarrow> int \<Rightarrow> int" where
  "shopcount letter r =
     (let itemlist = shopcontents letter;
          itemcount = int (length itemlist);
          shopcount = 5 + r;
          shopcount = min itemcount shopcount
      in shopcount)"


section \<open>The spell description renderer (describe-spells.cc)\<close>

subsection \<open>Types of the engine\<close>

text \<open>
  Enumerations keep the enumerators the renderer names; every other enumerator of the
  engine's headers is \<open>\<dots>_OTHER n\<close>.
\<close>

datatype spell_type =
    SPELL_ABJURATION
  | SPELL_FREEZE
  | SPELL_WATERSTRIKE
  | SPELL_IOOD
  | SPELL_GLACIATE
  | SPELL_CONJURE_BALL_LIGHTNING
  | SPELL_SEARING_BREATH
  | SPELL_CONJURE_LIVING_SPELLS
  | SPELL_SMITING
  | SPELL_MARSHLIGHT
  | SPELL_LEHUDIBS_CRYSTAL_SPEAR
  | SPELL_OTHER nat

datatype mon_spell_slot_flag =
    MON_SPELL_NATURAL
  | MON_SPELL_MAGICAL
  | MON_SPELL_PRIEST
  | MON_SPELL_VOCAL
  | MON_SPELL_WIZARD
  | MON_SPELL_OTHER nat

datatype spflag = selfench | WL_check | mons_abjure | spflag_OTHER nat

datatype monster_type = MONS_XTAHUA | MONS_OTHER nat

datatype mon_attitude_type = ATT_FRIENDLY | ATT_OTHER nat

datatype zap_type = NUM_ZAPS | ZAP nat

datatype object_class_type = OBJ_RODS | OBJ_OTHER nat

type_synonym coord_def = "int \<times> int"

type_synonym colour_t = nat

type_synonym spschool = nat

record dice_def =
  num :: int
  size_dd :: int

record item_def =
  base_type :: object_class_type
  sub_type :: int

text \<open>The fields of \<open>monster_info\<close> that the renderer reads (\<open>type\<close>, \<open>hd\<close>, \<open>pos\<close>, \<open>attitude\<close>).\<close>

record monster_info =
  type_mi :: monster_type
  hd_mi :: int
  pos_mi :: coord_def
  attitude_mi :: mon_attitude_type

record spellbook_contents =
  label :: string
  spells :: "spell_type list"

type_synonym spellset = "spellbook_contents list"

text \<open>
  The global game state that the renderer reads: \<open>crawl_state.need_save\<close>, \<open>you.pos()\<close>
  and \<open>you.immune_to_hex(spell)\<close>.
\<close>

record game_state =
  need_save :: bool
  you_pos :: coord_def
  you_immune_to_hex :: "spell_type \<Rightarrow> bool"

text \<open>
  The functions and constants of the engine that the renderer calls and that are defined
  elsewhere (spell tables, zap tables, colours, the map, string utilities). They are
  parameters of the model. \<open>spell_hd_mi\<close> is the method \<open>monster_info::spell_hd()\<close>.
  \<open>element_colour\<close> may answer differently each time it is called (some elemental
  colours are random), so its first argument numbers the call. \<open>hex_chance\<close> reads the
  player's state.
\<close>

record engine =
  get_spell_flags :: "spell_type \<Rightarrow> spflag set"
  mons_power_for_hd :: "spell_type \<Rightarrow> int \<Rightarrow> int"
  spell_range :: "spell_type \<Rightarrow> int \<Rightarrow> bool \<Rightarrow> int"
  in_bounds :: "coord_def \<Rightarrow> bool"
  grid_distance :: "coord_def \<Rightarrow> coord_def \<Rightarrow> int"
  freeze_damage :: "int \<Rightarrow> dice_def"
  waterstrike_damage :: "int \<Rightarrow> dice_def"
  iood_damage :: "int \<Rightarrow> int \<Rightarrow> bool \<Rightarrow> dice_def"
  glaciate_damage :: "int \<Rightarrow> int \<Rightarrow> dice_def"
  ball_lightning_damage :: "int \<Rightarrow> dice_def"
  mons_ball_lightning_hd :: "int \<Rightarrow> bool \<Rightarrow> int"
  INFINITE_DISTANCE :: int
  spell_to_zap :: "spell_type \<Rightarrow> zap_type"
  zap_damage :: "zap_type \<Rightarrow> int \<Rightarrow> bool \<Rightarrow> bool \<Rightarrow> dice_def"
  zap_colour :: "zap_type \<Rightarrow> colour_t"
  mons_spell_is_spell :: "spell_type \<Rightarrow> bool"
  spell_hd_mi :: "monster_info \<Rightarrow> int"
  living_spell_type_for :: "monster_type \<Rightarrow> spell_type"
  living_spell_count :: "spell_type \<Rightarrow> bool \<Rightarrow> int"
  hex_chance :: "game_state \<Rightarrow> spell_type \<Rightarrow> monster_info \<Rightarrow> int"
  BLACK :: colour_t
  DARKGRAY :: colour_t
  LIGHTBLUE :: colour_t
  LIGHTMAGENTA :: colour_t
  WHITE :: colour_t
  COL_UNKNOWN :: colour_t
  NUM_TERM_COLOURS :: colour_t
  colour_to_str :: "colour_t \<Rightarrow> string"
  element_colour :: "nat \<Rightarrow> colour_t \<Rightarrow> bool \<Rightarrow> coord_def \<Rightarrow> colour_t"
  spell_title :: "spell_type \<Rightarrow> string"
  spell_difficulty :: "spell_type \<Rightarrow> int"
  spschools_range :: "spschool list"
  spell_typematch :: "spell_type \<Rightarrow> spschool \<Rightarrow> bool"
  spelltype_long_name :: "spschool \<Rightarrow> string"
  spells_in_book :: "item_def \<Rightarrow> spell_type list"
  chop_string :: "string \<Rightarrow> int \<Rightarrow> string"

subsection \<open>Formatting helpers\<close>

text \<open>\<open>%d\<close> of \<open>make_stringf\<close>: the decimal digits of an integer, with a minus sign.\<close>

fun show_nat :: "nat \<Rightarrow> string" where
  "show_nat n =
     (if n < 10 then [char_of (48 + n)]
      else show_nat (n div 10) @ [char_of (48 + n mod 10)])"

declare show_nat.simps [simp del]

definition show_int :: "int \<Rightarrow> string" where
  "show_int i = (if i < 0 then CHR ''-'' # show_nat (nat (- i)) else show_nat (nat i))"

text \<open>\<open>testbits(flags, flag)\<close> for a single flag.\<close>

definition testbits :: "spflag set \<Rightarrow> spflag \<Rightarrow> bool" where
  "testbits flags flag = (flag \<in> flags)"

subsection \<open>\_ability\_type\_descriptor\<close>

text \<open>
  Modelled from the spec: \<open>lookup(map, key, unfound)\<close> of the engine's utility header
  is not part of the sources. "Unknown lookups return placeholder text rather than
  failing": the value stored under the key, and \<open>unfound\<close> when the key has no entry.
\<close>

definition lookup :: "('k \<times> 'v) list \<Rightarrow> 'k \<Rightarrow> 'v \<Rightarrow> 'v" where
  "lookup m key unfound = (case map_of m key of None \<Rightarrow> unfound | Some v \<Rightarrow> v)"

definition descriptors :: "(mon_spell_slot_flag \<times> string) list" where
  "descriptors =
     [(MON_SPELL_NATURAL, ''natural''),
      (MON_SPELL_MAGICAL, ''magical''),
      (MON_SPELL_PRIEST, ''divine''),
      (MON_SPELL_VOCAL, ''natural'')]"

definition ability_type_descriptor :: "mon_spell_slot_flag \<Rightarrow> string" where
  "ability_type_descriptor type = lookup descriptors type ''buggy''"

subsection \<open>\_spellset\_contents\<close>

text \<open>
  The first pair of loops inserts every spell of every book into the set
  \<open>unique_spells\<close>. The second pair walks the books again; \<open>erase\<close> returns 1 exactly
  when the spell was still in the set, and then the spell is appended to the list.
  The argument \<open>spells\<close> of the source is \<open>spell_set\<close> here, since \<open>spells\<close> is
  also the field of a book.
\<close>

definition insert_book :: "spellbook_contents \<Rightarrow> spell_type set \<Rightarrow> spell_type set" where
  "insert_book book unique_spells = fold (\<lambda>spell u. insert spell u) (spells book) unique_spells"

definition erase_spell ::
  "spell_type \<Rightarrow> spell_type set \<times> spell_type list \<Rightarrow> spell_type set \<times> spell_type list" where
  "erase_spell spell acc =
     (case acc of (unique_spells, spell_list) \<Rightarrow>
        if spell \<in> unique_spells then (unique_spells - {spell}, spell_list @ [spell])
        else (unique_spells, spell_list))"

definition erase_book ::
  "spellbook_contents \<Rightarrow> spell_type set \<times> spell_type list \<Rightarrow> spell_type set \<times> spell_type list" where
  "erase_book book acc = fold erase_spell (spells book) acc"

definition spellset_contents :: "spellset \<Rightarrow> spell_type list" where
  "spellset_contents spell_set =
     (let unique_spells = fold insert_book spell_set {}
      in snd (fold erase_book spell_set (unique_spells, [])))"

text \<open>
  The words of the spec, for comparison: keep each spell at its first occurrence, in the
  order of the books and of the spells in each book.
\<close>

fun first_occurrences :: "'a list \<Rightarrow> 'a list \<Rightarrow> 'a list" where
  "first_occurrences seen [] = []"
| "first_occurrences seen (x # xs) =
     (if x \<in> set seen then first_occurrences seen xs
      else x # first_occurrences (x # seen) xs)"

text \<open>The position of the first occurrence of \<open>x\<close> in a list that holds it.\<close>

fun first_index :: "'a list \<Rightarrow> 'a \<Rightarrow> nat" where
  "first_index [] x = 0"
| "first_index (y # ys) x = (if x = y then 0 else Suc (first_index ys x))"

subsection \<open>map\_chars\_to\_spells\<close>

definition list_spells_doublecolumn :: "item_def option \<Rightarrow> bool" where
  "list_spells_doublecolumn source_item = (source_item = None)"

text \<open>
  \<open>next_ch++\<close> on an 8-bit \<open>char\<close>: the next code, and 0 after 255 (the sum is
  computed as an \<open>int\<close> and the conversion back to \<open>char\<close> keeps its low 8 bits,
  whether \<open>char\<close> is signed or not).
\<close>

definition next_char :: "char \<Rightarrow> char" where
  "next_char c = char_of ((of_char c :: nat) + 1)"

text \<open>The single-column loop: one pair per spell, in order.\<close>

definition emplace_all ::
  "spell_type list \<Rightarrow> (spell_type \<times> char) list \<times> char \<Rightarrow> (spell_type \<times> char) list \<times> char" where
  "emplace_all flat_spells acc =
     fold (\<lambda>spell (ret, next_ch). (ret @ [(spell, next_ch)], next_char next_ch)) flat_spells acc"

text \<open>A double-column loop: \<open>for (i = start; i < flat_spells.size(); i += 2)\<close>.\<close>

function emplace_every_other ::
  "spell_type list \<Rightarrow> nat \<Rightarrow> (spell_type \<times> char) list \<times> char \<Rightarrow> (spell_type \<times> char) list \<times> char" where
  "emplace_every_other flat_spells i acc =
     (if i < length flat_spells
      then emplace_every_other flat_spells (i + 2)
             (fst acc @ [(flat_spells ! i, snd acc)], next_char (snd acc))
      else acc)"
  by pat_completeness auto
termination
  by (relation "measure (\<lambda>(flat_spells, i, acc). length flat_spells - i)") auto

declare emplace_every_other.simps [simp del]

definition map_chars_to_spells :: "spellset \<Rightarrow> item_def option \<Rightarrow> (spell_type \<times> char) list" where
  "map_chars_to_spells spell_set source_item =
     (let next_ch = CHR ''a'';
          flat_spells = spellset_contents spell_set;
          ret = []
      in if \<not> list_spells_doublecolumn source_item
         then fst (emplace_all flat_spells (ret, next_ch))
         else fst (emplace_every_other flat_spells 1
                     (emplace_every_other flat_spells 0 (ret, next_ch))))"

text \<open>
  The words of the spec for the double-column layout: \<open>every_other xs\<close> are the
  elements at the even positions of \<open>xs\<close>, counted from 0, and \<open>every_other (tl xs)\<close>
  those at the odd positions. \<open>chars_from c n\<close> are \<open>n\<close> consecutive characters from \<open>c\<close>
  on.
\<close>

fun every_other :: "'a list \<Rightarrow> 'a list" where
  "every_other [] = []"
| "every_other [x] = [x]"
| "every_other (x # y # xs) = x # every_other xs"

fun chars_from :: "char \<Rightarrow> nat \<Rightarrow> char list" where
  "chars_from c 0 = []"
| "chars_from c (Suc n) = c # chars_from (next_char c) n"

subsection \<open>\_spell\_schools\<close>

definition spell_schools :: "engine \<Rightarrow> spell_type \<Rightarrow> string" where
  "spell_schools eng spell =
     fold (\<lambda>school_flag schools.
             if \<not> spell_typematch eng spell school_flag then schools
             else
               let schools = (if schools \<noteq> [] then schools @ ''/'' else schools)
               in schools @ spelltype_long_name eng school_flag)
          (spschools_range eng) ''''"

subsection \<open>\_range\_string\<close>

text \<open>The hit dice, \<open>hd\<close> in the source, are \<open>hit_dice\<close> in the model.\<close>

definition range_string ::
  "engine \<Rightarrow> game_state \<Rightarrow> spell_type \<Rightarrow> monster_info option \<Rightarrow> int \<Rightarrow> string" where
  "range_string eng st spell mon_owner hit_dice =
     (let flags = get_spell_flags eng spell;
          pow = mons_power_for_hd eng spell hit_dice;
          range = spell_range eng spell pow False;
          has_range = (mon_owner \<noteq> None \<and> range > 0 \<and> \<not> testbits flags selfench)
      in if \<not> has_range then ''''
         else
           let in_range = (has_range \<and> need_save st
                           \<and> in_bounds eng (pos_mi (the mon_owner))
                           \<and> grid_distance eng (you_pos st) (pos_mi (the mon_owner)) \<le> range);
               range_col = (if in_range then ''lightred'' else ''lightgray'')
           in ''(<'' @ range_col @ ''>'' @ show_int range @ ''</'' @ range_col @ ''>)'')"

subsection \<open>\_spell\_damage, \_spell\_hd and the colour of a spell\<close>

definition spell_damage :: "engine \<Rightarrow> spell_type \<Rightarrow> int \<Rightarrow> dice_def" where
  "spell_damage eng spell hit_dice =
     (let pow = mons_power_for_hd eng spell hit_dice
      in if spell = SPELL_FREEZE then freeze_damage eng pow
         else if spell = SPELL_WATERSTRIKE then waterstrike_damage eng hit_dice
         else if spell = SPELL_IOOD then iood_damage eng pow (INFINITE_DISTANCE eng) False
         else if spell = SPELL_GLACIATE then glaciate_damage eng pow 3
         else if spell = SPELL_CONJURE_BALL_LIGHTNING
           then ball_lightning_damage eng (mons_ball_lightning_hd eng pow False)
         else
           let zap = spell_to_zap eng spell
           in if zap = NUM_ZAPS then \<lparr>num = 0, size_dd = 0\<rparr>
              else zap_damage eng zap pow True False)"

text \<open>
  Arithmetic on \<open>int\<close> is 32-bit. \<open>int32 x\<close> is the value that a result \<open>x\<close> has in 32
  bits, two's complement: \<open>x\<close> itself when it fits, and wrapped round otherwise (the
  source has undefined behaviour on signed overflow; the compiled engine wraps).
  \<open>hd * 3 / 2\<close> is C's division, which rounds towards zero.
\<close>

definition int32 :: "int \<Rightarrow> int" where
  "int32 x = (x + 2 ^ 31) mod 2 ^ 32 - 2 ^ 31"

definition spell_hd :: "engine \<Rightarrow> spell_type \<Rightarrow> monster_info \<Rightarrow> int" where
  "spell_hd eng spell mon_owner =
     (if spell = SPELL_SEARING_BREATH \<and> type_mi mon_owner = MONS_XTAHUA
        then int32 (hd_mi mon_owner * 3) sdiv 2
      else if mons_spell_is_spell eng spell then spell_hd_mi eng mon_owner
      else hd_mi mon_owner)"

text \<open>The overload \<open>_spell_colour(spell)\<close>, which picks the colour of the effect string.\<close>

definition spell_colour :: "engine \<Rightarrow> spell_type \<Rightarrow> colour_t" where
  "spell_colour eng spell =
     (if spell = SPELL_FREEZE \<or> spell = SPELL_GLACIATE then WHITE eng
      else if spell = SPELL_WATERSTRIKE then LIGHTBLUE eng
      else if spell = SPELL_IOOD then LIGHTMAGENTA eng
      else
        let zap = spell_to_zap eng spell
        in if zap = NUM_ZAPS then COL_UNKNOWN eng else zap_colour eng zap)"

subsection \<open>\_colourize\<close>

text \<open>
  \<open>base[pos]\<close> on a \<open>std::string\<close>: a character of the string for \<open>pos < size()\<close>, the
  terminating NUL for \<open>pos = size()\<close>, and undefined behaviour beyond that, which the
  model reports as an error. \<open>make_stringf("%c", c)\<close> is the string of the one character
  \<open>c\<close>, as it is for every character but NUL.
\<close>

datatype error = Out_of_range

definition string_at :: "string \<Rightarrow> nat \<Rightarrow> error + char" where
  "string_at base pos =
     (if pos < length base then Inr (base ! pos)
      else if pos = length base then Inr (CHR 0x00)
      else Inl Out_of_range)"

text \<open>\<open>(int)base.length()\<close>: the low 32 bits of the length, read as a signed number.\<close>

definition int_of_size_t :: "nat \<Rightarrow> int" where
  "int_of_size_t n =
     (let m = n mod 2 ^ 32 in if m < 2 ^ 31 then int m else int m - 2 ^ 32)"

text \<open>\<open>base.length() - 1\<close> in \<open>size_t\<close> (64 bits): it wraps to \<open>2\<^sup>6\<^sup>4 - 1\<close> at length 0.\<close>

definition size_t_minus_1 :: "nat \<Rightarrow> nat" where
  "size_t_minus_1 n = (n mod 2 ^ 64 + (2 ^ 64 - 1)) mod 2 ^ 64"

text \<open>The loop \<open>for (int i = 1; i < (int)base.length() - 1; i++)\<close>, from index \<open>i\<close> on.\<close>

function colourize_loop ::
  "engine \<Rightarrow> game_state \<Rightarrow> string \<Rightarrow> colour_t \<Rightarrow> nat \<Rightarrow> string \<Rightarrow> error + string" where
  "colourize_loop eng st base col i out =
     (if int i < int_of_size_t (length base) - 1 then
        (let term_col = element_colour eng i col False (you_pos st);
             col_name = colour_to_str eng term_col
         in case string_at base i of
              Inl e \<Rightarrow> Inl e
            | Inr c \<Rightarrow>
                colourize_loop eng st base col (i + 1)
                  (out @ ''<'' @ col_name @ ''>'' @ [c] @ ''</'' @ col_name @ ''>''))
      else Inr out)"
  by pat_completeness auto
termination
proof (relation "measure (\<lambda>(eng, st, base, col, i, out). nat (int_of_size_t (length base) - int i))")
qed (auto simp: nat_less_iff)

declare colourize_loop.simps [simp del]

definition colourize :: "engine \<Rightarrow> game_state \<Rightarrow> string \<Rightarrow> colour_t \<Rightarrow> error + string" where
  "colourize eng st base col =
     (if col < NUM_TERM_COLOURS eng then
        (let col = (if col = BLACK eng then DARKGRAY eng else col);
             col_name = colour_to_str eng col
         in Inr (''<'' @ col_name @ ''>'' @ base @ ''</'' @ col_name @ ''>''))
      else
        case string_at base 0 of
          Inl e \<Rightarrow> Inl e
        | Inr c0 \<Rightarrow>
            (case colourize_loop eng st base col 1 [c0] of
               Inl e \<Rightarrow> Inl e
             | Inr out \<Rightarrow>
                 (case string_at base (size_t_minus_1 (length base)) of
                    Inl e \<Rightarrow> Inl e
                  | Inr c \<Rightarrow> Inr (out @ [c]))))"

subsection \<open>\_effect\_string and \_describe\_living\_spells\<close>

text \<open>
  The part of \<open>_effect_string\<close> after the test for Conjure Living Spells. The build has
  no \<open>DEBUG_DIAGNOSTICS\<close>, so a friendly monster shows no hex chance.
\<close>

definition effect_string_plain ::
  "engine \<Rightarrow> game_state \<Rightarrow> spell_type \<Rightarrow> monster_info \<Rightarrow> string" where
  "effect_string_plain eng st spell mon =
     (let hit_dice = spell_hd eng spell mon
      in if hit_dice = 0 then ''''
         else if testbits (get_spell_flags eng spell) WL_check then
           (if \<not> need_save st \<or> attitude_mi mon = ATT_FRIENDLY then ''''
            else if you_immune_to_hex st spell then ''(immune)''
            else ''('' @ show_int (hex_chance eng st spell mon) @ ''%)'')
         else if spell = SPELL_SMITING then ''7-17''
         else
           let dam = spell_damage eng spell hit_dice
           in if num dam = 0 \<or> size_dd dam = 0 then ''''
              else
                let mult = (if spell = SPELL_MARSHLIGHT then ''2x''
                            else if spell = SPELL_CONJURE_BALL_LIGHTNING then ''3x''
                            else '''')
                in ''('' @ mult @ show_int (num dam) @ ''d'' @ show_int (size_dd dam) @ '')'')"

text \<open>
  \<open>_effect_string\<close> and \<open>_describe_living_spells\<close> call each other: for Conjure Living
  Spells the effect string of the living spell of the monster is wrapped as
  \<open>NxDESC\<close>. Should the engine name Conjure Living Spells itself as the living spell,
  the calls would never return, which is the value \<open>None\<close>. \<open>base_desc[0] == '('\<close>
  reads the terminating NUL of an empty string, which is no parenthesis.
\<close>

partial_function (option) effect_string ::
  "engine \<Rightarrow> game_state \<Rightarrow> spell_type \<Rightarrow> monster_info option \<Rightarrow> string option" where
  "effect_string eng st spell mon_owner =
     (case mon_owner of
        None \<Rightarrow> Some ''''
      | Some mon \<Rightarrow>
          if spell = SPELL_CONJURE_LIVING_SPELLS then
            Option.bind
              (effect_string eng st (living_spell_type_for eng (type_mi mon)) mon_owner)
              (\<lambda>base_desc.
                 Some (show_int (living_spell_count eng (living_spell_type_for eng (type_mi mon)) False)
                       @ ''x''
                       @ (if take 1 base_desc = ''('' then base_desc
                          else ''('' @ base_desc @ '')'')))
          else Some (effect_string_plain eng st spell mon))"

subsection \<open>One spell of \_describe\_book and of \_write\_book\<close>

text \<open>
  The \<open>find_if\<close> over the letter map, which both renderers run for each spell: the
  letter of the first pair whose spell is the one looked for, and a blank when there is
  none.
\<close>

definition find_spell_letter :: "(spell_type \<times> char) list \<Rightarrow> spell_type \<Rightarrow> char" where
  "find_spell_letter spell_map spell =
     (case find (\<lambda>e. fst e = spell) spell_map of
        Some entry \<Rightarrow> snd entry
      | None \<Rightarrow> CHR '' '')"

text \<open>
  The text that \<open>_describe_book\<close> hands to \<open>formatted_string::parse_string\<close> for one
  spell of the book, \<open>"%c - %s%s%s%s"\<close>. The colours set by \<open>textcolour\<close>, the column
  padding and the school and level columns of the single-column layout are written
  around it and are not part of this string.
\<close>

definition describe_book_spell ::
  "engine \<Rightarrow> game_state \<Rightarrow> (spell_type \<times> char) list \<Rightarrow> monster_info option \<Rightarrow> spell_type
     \<Rightarrow> (error + string) option" where
  "describe_book_spell eng st spell_map mon_owner spell =
     (let hit_dice = (case mon_owner of Some mon \<Rightarrow> spell_hd_mi eng mon | None \<Rightarrow> 0);
          spell_letter = find_spell_letter spell_map spell;
          range_str = range_string eng st spell mon_owner hit_dice
      in Option.bind (effect_string eng st spell mon_owner)
           (\<lambda>effect_str.
              let effect_len = int (length effect_str);
                  range_len = (if range_str = [] then 0 else 3);
                  effect_range_space = (if effect_len \<noteq> 0 \<and> range_len \<noteq> 0 then 1 else 0);
                  chop_len = 30 - effect_len - range_len - effect_range_space;
                  coloured =
                    (if effect_len \<noteq> 0 \<and> \<not> testbits (get_spell_flags eng spell) WL_check
                     then colourize eng st effect_str (spell_colour eng spell)
                     else Inr effect_str)
              in Some
                   (case coloured of
                      Inl e \<Rightarrow> Inl e
                    | Inr effect_str \<Rightarrow>
                        let spell_name = spell_title eng spell;
                            spell_name =
                              (if spell = SPELL_LEHUDIBS_CRYSTAL_SPEAR
                                  \<and> chop_len < int (length spell_name)
                               then ''Crystal Spear'' else spell_name)
                        in Inr ([spell_letter] @ '' - ''
                                @ chop_string eng spell_name chop_len
                                @ effect_str
                                @ (if effect_range_space \<noteq> (0::int) then '' '' else '''')
                                @ range_str))))"

text \<open>
  The JSON object that \<open>_write_book\<close> writes for one spell (each member with the
  suffix \<open>_json\<close>), without its \<open>colour\<close> and \<open>tile\<close> members. \<open>range_string\<close> is written only when it is not empty. The build has
  \<open>TAG_MAJOR_VERSION == 34\<close>.
\<close>

record spell_json =
  title_json :: string
  letter_json :: string
  effect_json :: string
  range_string_json :: "string option"
  schools_json :: string
  level_json :: int

definition write_book_spell ::
  "engine \<Rightarrow> game_state \<Rightarrow> (spell_type \<times> char) list \<Rightarrow> item_def option
     \<Rightarrow> monster_info option \<Rightarrow> spell_type \<Rightarrow> (error + spell_json) option" where
  "write_book_spell eng st spell_map source_item mon_owner spell =
     (let hit_dice = (case mon_owner of Some mon \<Rightarrow> spell_hd_mi eng mon | None \<Rightarrow> 0);
          spell_letter = find_spell_letter spell_map spell
      in Option.bind (effect_string eng st spell mon_owner)
           (\<lambda>effect_str.
              let coloured =
                    (if \<not> testbits (get_spell_flags eng spell) WL_check
                     then colourize eng st effect_str (spell_colour eng spell)
                     else Inr effect_str)
              in Some
                   (case coloured of
                      Inl e \<Rightarrow> Inl e
                    | Inr effect_str \<Rightarrow>
                        let range_str = range_string eng st spell mon_owner hit_dice;
                            schools_str =
                              (if source_item \<noteq> None \<and> base_type (the source_item) = OBJ_RODS
                               then ''Evocations'' else spell_schools eng spell)
                        in Inr \<lparr>title_json = spell_title eng spell,
                                letter_json = [spell_letter],
                                effect_json = effect_str,
                                range_string_json =
                                  (if length range_str > 0 then Some range_str else None),
                                schools_json = schools_str,
                                level_json = spell_difficulty eng spell\<rparr>)))"

subsection \<open>terse\_spell\_list\<close>

text \<open>
  Modelled from the spec: \<open>comma_separated_line\<close> of the engine's string utilities is
  not part of the sources. The spec speaks of a single-line summary string, a
  comma-separated line: the items in order, joined by the separator \<open>comma\<close>, the last
  two by the separator \<open>andc\<close>. Both separators are the engine's default arguments,
  which the caller does not give; they are arguments here.
\<close>

fun comma_separated_line :: "string \<Rightarrow> string \<Rightarrow> string list \<Rightarrow> string" where
  "comma_separated_line andc comma [] = ''''"
| "comma_separated_line andc comma [x] = x"
| "comma_separated_line andc comma [x, y] = x @ andc @ y"
| "comma_separated_line andc comma (x # y # zs) =
     x @ comma @ comma_separated_line andc comma (y # zs)"

text \<open>One entry of the list, \<open>"%s (L%d %s)"\<close>.\<close>

definition terse_spell_desc :: "engine \<Rightarrow> spell_type \<Rightarrow> string" where
  "terse_spell_desc eng spell =
     spell_title eng spell @ '' (L'' @ show_int (spell_difficulty eng spell) @ '' ''
       @ spell_schools eng spell @ '')''"

definition terse_spell_list :: "engine \<Rightarrow> string \<Rightarrow> string \<Rightarrow> item_def \<Rightarrow> string" where
  "terse_spell_list eng andc comma item =
     (let spell_descs =
            fold (\<lambda>spell spell_descs. spell_descs @ [terse_spell_desc eng spell])
                 (spells_in_book eng item) []
      in ''Spells: '' @ comma_separated_line andc comma spell_descs)"

section \<open>A small instance of the engine\<close>

text \<open>
  The examples below run the renderer on this instance: sixteen terminal colours
  numbered from 0, elemental colours from 32; every spell has range 7; the map is 80 by
  70 with a border; the grid distance is the larger of the two coordinate differences;
  \<open>SPELL_OTHER n\<close> fires zap \<open>n\<close>, and zap 0 has an elemental colour;
  \<open>SPELL_OTHER 1\<close> is a hex that checks willpower.
\<close>

definition demo_engine :: engine where
  "demo_engine =
     \<lparr>get_spell_flags = (\<lambda>spell. if spell = SPELL_OTHER 1 then {WL_check} else {}),
      mons_power_for_hd = (\<lambda>spell hit_dice. 12 * hit_dice),
      spell_range = (\<lambda>spell pow allow_bonus. 7),
      in_bounds = (\<lambda>p. 0 < fst p \<and> fst p < 79 \<and> 0 < snd p \<and> snd p < 69),
      grid_distance = (\<lambda>p q. max \<bar>fst p - fst q\<bar> \<bar>snd p - snd q\<bar>),
      freeze_damage = (\<lambda>pow. \<lparr>num = 1, size_dd = 11\<rparr>),
      waterstrike_damage = (\<lambda>hit_dice. \<lparr>num = 3, size_dd = 7 + hit_dice\<rparr>),
      iood_damage = (\<lambda>pow dist random. \<lparr>num = 9, size_dd = 6\<rparr>),
      glaciate_damage = (\<lambda>pow eff_range. \<lparr>num = 10, size_dd = 8\<rparr>),
      ball_lightning_damage = (\<lambda>hit_dice. \<lparr>num = 3, size_dd = 10 + hit_dice\<rparr>),
      mons_ball_lightning_hd = (\<lambda>pow random. 6),
      INFINITE_DISTANCE = 30000,
      spell_to_zap = (\<lambda>spell. case spell of SPELL_OTHER n \<Rightarrow> ZAP n | _ \<Rightarrow> NUM_ZAPS),
      zap_damage = (\<lambda>zap pow is_monster random. \<lparr>num = 3, size_dd = 6\<rparr>),
      zap_colour = (\<lambda>zap. if zap = ZAP 0 then 32 else 4),
      mons_spell_is_spell = (\<lambda>spell. True),
      spell_hd_mi = (\<lambda>mon. hd_mi mon),
      living_spell_type_for = (\<lambda>mons. SPELL_SMITING),
      living_spell_count = (\<lambda>spell random. 3),
      hex_chance = (\<lambda>st spell mon. 50),
      BLACK = 0,
      DARKGRAY = 8,
      LIGHTBLUE = 9,
      LIGHTMAGENTA = 13,
      WHITE = 15,
      COL_UNKNOWN = 7,
      NUM_TERM_COLOURS = 16,
      colour_to_str =
        (\<lambda>col. if col = 15 then ''white'' else if col = 9 then ''lightblue''
               else if col = 13 then ''lightmagenta'' else if col = 8 then ''darkgrey''
               else if col = 4 then ''red'' else ''lightgrey''),
      element_colour = (\<lambda>call col ignore loc. 4),
      spell_title =
        (\<lambda>spell. if spell = SPELL_FREEZE then ''Freeze''
                 else if spell = SPELL_IOOD then ''Orb of Destruction''
                 else ''Bolt''),
      spell_difficulty = (\<lambda>spell. if spell = SPELL_FREEZE then 1 else 7),
      spschools_range = [1, 2, 4, 8],
      spell_typematch =
        (\<lambda>spell school. (spell = SPELL_FREEZE \<and> school = 2)
                        \<or> (spell \<noteq> SPELL_FREEZE \<and> (school = 1 \<or> school = 8))),
      spelltype_long_name =
        (\<lambda>school. if school = 1 then ''Conjuration'' else if school = 2 then ''Ice''
                  else if school = 4 then ''Necromancy'' else ''Translocation''),
      spells_in_book = (\<lambda>item. if sub_type item = 0 then [SPELL_FREEZE, SPELL_IOOD] else []),
      chop_string = (\<lambda>s width. take (nat width) (s @ replicate (nat width - length s) (CHR '' '')))\<rparr>"

definition demo_state :: game_state where
  "demo_state = \<lparr>need_save = True, you_pos = (10, 10), you_immune_to_hex = (\<lambda>spell. False)\<rparr>"

definition demo_monster :: monster_info where
  "demo_monster =
     \<lparr>type_mi = MONS_OTHER 0, hd_mi = 5, pos_mi = (12, 10), attitude_mi = ATT_OTHER 0\<rparr>"

definition demo_book :: item_def where
  "demo_book = \<lparr>base_type = OBJ_OTHER 0, sub_type = 0\<rparr>"

section \<open>Properties of the alphabet shop vault\<close>

subsection \<open>The candidate letters\<close>

lemma pickletter_options_eq: "pickletter_options = ''ABCDEFGHILMNPRSTW''"
  by code_simp

lemma pickletter_11: "pickletter 11 = ''N''"
  by (simp add: pickletter_def pickletter_options_eq string_sub_def)

lemma shopcontents_N_length: "length (shopcontents ''N'') = 4"
  by (simp add: shopcontents_def)

lemma string_sub_single:
  assumes "1 \<le> i" and "i \<le> length s"
  shows "string_sub s i i = [s ! (i - 1)]"
proof -
  from assms have "i - 1 < length s" by arith
  then have "drop (i - 1) s = s ! (i - 1) # drop (Suc (i - 1)) s"
    by (simp add: Cons_nth_drop_Suc)
  moreover from assms have "i - (i - 1) = Suc 0" by arith
  ultimately show ?thesis by (simp add: string_sub_def)
qed

lemma pickletter_in_options:
  assumes "r \<in> random2_outcomes (int (length pickletter_options))"
  shows "\<exists>c \<in> set pickletter_options. pickletter r = [c]"
proof -
  from assms have r: "0 \<le> r" "r < int (length pickletter_options)"
    by (simp_all add: random2_outcomes_def pickletter_options_eq)
  then have "1 \<le> nat (r + 1)" "nat (r + 1) \<le> length pickletter_options" by simp_all
  then have "pickletter r = [pickletter_options ! (nat (r + 1) - 1)]"
    by (simp add: pickletter_def string_sub_single)
  moreover from r have "nat (r + 1) - 1 < length pickletter_options" by simp
  ultimately show ?thesis by (metis nth_mem)
qed

lemma options_item_counts:
  "list_all (\<lambda>c. 4 \<le> length (shopcontents [c])) pickletter_options"
  by code_simp

text \<open>
  What the eligibility loop does ensure: every letter that \<open>pickletter\<close> can return has
  at least four items.
\<close>

lemma pickletter_at_least_four:
  assumes "r \<in> random2_outcomes (int (length pickletter_options))"
  shows "4 \<le> length (shopcontents (pickletter r))"
  using pickletter_in_options [OF assms] options_item_counts
  by (auto simp: list_all_iff)

text \<open>
  C1. The claim: \<open>pickletter\<close> never returns a letter whose item list has fewer than 5
  items. The loop adds one to the length of the list before it compares with 5, so a
  letter with four items stays a candidate. \<open>N\<close> has four items, it is the twelfth of
  the seventeen candidates, and \<open>pickletter\<close> returns it when the engine draws 11.
\<close>

theorem pickletter_returns_letter_with_four_items:
  "11 \<in> random2_outcomes (int (length pickletter_options))
     \<and> pickletter 11 = ''N''
     \<and> length (shopcontents (pickletter 11)) = 4"
  by (simp add: pickletter_11 shopcontents_N_length random2_outcomes_def pickletter_options_eq)

subsection \<open>The number of items stocked\<close>

text \<open>For a letter with five items or more the count is between 5 and \<open>min(15, itemcount)\<close>.\<close>

lemma shopcount_bounds_five_items:
  assumes "5 \<le> length (shopcontents letter)"
    and "r \<in> random2_outcomes (maxcount letter - 4)"
  shows "5 \<le> shopcount letter r
       \<and> shopcount letter r \<le> min 15 (int (length (shopcontents letter)))"
  using assms
  by (auto simp: shopcount_def maxcount_def random2_outcomes_def Let_def split: if_splits)

text \<open>
  C2. The claim: for every letter that \<open>pickletter\<close> can return, the count satisfies
  \<open>5 \<le> shopcount \<le> min(15, itemcount)\<close>. \<open>pickletter\<close> can return \<open>N\<close>, which has four
  items: then \<open>maxcount - 4\<close> is 0, the only draw is 0, and the count is clamped from 5 to
  4.
\<close>

theorem shopcount_of_N_is_four:
  "11 \<in> random2_outcomes (int (length pickletter_options))
     \<and> pickletter 11 = ''N''
     \<and> random2_outcomes (maxcount ''N'' - 4) = {0}
     \<and> shopcount ''N'' 0 = 4"
  by (simp add: pickletter_11 random2_outcomes_def pickletter_options_eq maxcount_def
      shopcount_def shopcontents_N_length)

subsection \<open>The name of the shopkeeper\<close>

lemma string_gsub_delete: "string_gsub s [c] [] = filter (\<lambda>x. x \<noteq> c) s"
  by (induction s) (simp_all add: string_gsub_def)

text \<open>
  C8. For every capital letter \<open>s\<close>, whatever the coin and whatever name the generator
  makes (empty or not), \<open>ownername s\<close> begins with \<open>s\<close> and holds no space.
\<close>

theorem ownername_token:
  assumes "s \<in> set capital_letters"
  shows "prefix s (ownername s one_chance_in_20 made_name)
       \<and> CHR '' '' \<notin> set (ownername s one_chance_in_20 made_name)"
proof -
  from assms obtain c where s: "s = [c]" and c: "c \<noteq> CHR '' ''"
    by (auto simp: capital_letters_def)
  from c show ?thesis
    by (auto simp: ownername_def s string_gsub_delete)
qed

lemma ownername_example: "ownername ''N'' False ''Plog Bar'' = ''Nlogbar''"
  by code_simp

theorem ownername_token_witness:
  "''N'' \<in> set capital_letters
     \<and> ownername ''N'' False ''Plog Bar'' = ''Nlogbar''
     \<and> prefix ''N'' (ownername ''N'' False ''Plog Bar'')
     \<and> CHR '' '' \<notin> set (ownername ''N'' False ''Plog Bar'')"
proof -
  have h: "''N'' \<in> set capital_letters" by (simp add: capital_letters_def)
  from ownername_token [OF h, of False "''Plog Bar''"] h ownername_example
  show ?thesis by simp
qed

section \<open>Properties of the spell description renderer\<close>

subsection \<open>The deduplicated spell list\<close>

lemma fold_insert_set: "fold (\<lambda>spell u. insert spell u) xs U = U \<union> set xs"
  by (induction xs arbitrary: U) auto

lemma fold_insert_book: "fold insert_book spell_set U = U \<union> set (concat (map spells spell_set))"
  by (induction spell_set arbitrary: U) (auto simp: insert_book_def fold_insert_set)

lemma fold_erase_book:
  "fold erase_book spell_set acc = fold erase_spell (concat (map spells spell_set)) acc"
  by (induction spell_set arbitrary: acc) (simp_all add: erase_book_def)


lemma erase_spell_in: "x \<in> U \<Longrightarrow> erase_spell x (U, l) = (U - {x}, l @ [x])"
  by (simp add: erase_spell_def)

lemma erase_spell_out: "x \<notin> U \<Longrightarrow> erase_spell x (U, l) = (U, l)"
  by (simp add: erase_spell_def)

lemma fold_erase_spell:
  assumes "set xs \<subseteq> U \<union> set seen" and "U \<inter> set seen = {}"
  shows "fold erase_spell xs (U, l) = (U - set xs, l @ first_occurrences seen xs)"
  using assms
proof (induction xs arbitrary: U seen l)
  case Nil
  then show ?case by simp
next
  case (Cons x xs)
  show ?case
  proof (cases "x \<in> U")
    case True
    with Cons.prems have notseen: "x \<notin> set seen" by blast
    from Cons.prems True have a: "set xs \<subseteq> (U - {x}) \<union> set (x # seen)" by auto
    from Cons.prems True have b: "(U - {x}) \<inter> set (x # seen) = {}" by auto
    have c: "U - {x} - set xs = U - set (x # xs)" by auto
    have "fold erase_spell (x # xs) (U, l) = fold erase_spell xs (U - {x}, l @ [x])"
      using True by (simp add: erase_spell_in)
    also have "\<dots> = (U - {x} - set xs, (l @ [x]) @ first_occurrences (x # seen) xs)"
      by (rule Cons.IH [OF a b])
    also have "\<dots> = (U - set (x # xs), l @ first_occurrences seen (x # xs))"
      using notseen c by simp
    finally show ?thesis .
  next
    case False
    with Cons.prems have seen: "x \<in> set seen" by auto
    from Cons.prems False have a: "set xs \<subseteq> U \<union> set seen" by auto
    have c: "U - set xs = U - set (x # xs)" using False by auto
    have "fold erase_spell (x # xs) (U, l) = fold erase_spell xs (U, l)"
      using False by (simp add: erase_spell_out)
    also have "\<dots> = (U - set xs, l @ first_occurrences seen xs)"
      by (rule Cons.IH [OF a Cons.prems(2)])
    also have "\<dots> = (U - set (x # xs), l @ first_occurrences seen (x # xs))"
      using seen c by simp
    finally show ?thesis .
  qed
qed


lemma spellset_contents_eq:
  "spellset_contents spell_set = first_occurrences [] (concat (map spells spell_set))"
proof -
  let ?flat = "concat (map spells spell_set)"
  have "fold erase_spell ?flat (set ?flat, []) = (set ?flat - set ?flat, [] @ first_occurrences [] ?flat)"
    by (rule fold_erase_spell) simp_all
  then show ?thesis
    by (simp only: spellset_contents_def Let_def fold_insert_book fold_erase_book
        Un_empty_left snd_conv append_Nil)
qed

lemma set_first_occurrences: "set (first_occurrences seen xs) = set xs - set seen"
  by (induction xs arbitrary: seen) auto

lemma distinct_first_occurrences: "distinct (first_occurrences seen xs)"
  by (induction xs arbitrary: seen) (auto simp: set_first_occurrences)

lemma first_index_Cons_other:
  assumes "x \<notin> set ys"
  shows "map (first_index (x # xs)) ys = map (\<lambda>y. Suc (first_index xs y)) ys"
  using assms by (induction ys) auto

lemma sorted_wrt_Suc:
  assumes "sorted_wrt (<) (map (first_index xs) ys)"
  shows "sorted_wrt (<) (map (\<lambda>y. Suc (first_index xs y)) ys)"
  using assms by (simp add: sorted_wrt_map)

lemma sorted_first_occurrences:
  "sorted_wrt (<) (map (first_index xs) (first_occurrences seen xs))"
proof (induction xs arbitrary: seen)
  case Nil
  then show ?case by simp
next
  case (Cons x xs)
  show ?case
  proof (cases "x \<in> set seen")
    case True
    then have "x \<notin> set (first_occurrences seen xs)" by (simp add: set_first_occurrences)
    then have "map (first_index (x # xs)) (first_occurrences seen xs)
        = map (\<lambda>y. Suc (first_index xs y)) (first_occurrences seen xs)"
      by (rule first_index_Cons_other)
    moreover have "first_occurrences seen (x # xs) = first_occurrences seen xs"
      using True by simp
    ultimately show ?thesis
      using sorted_wrt_Suc [OF Cons.IH [of seen]] by (simp only:)
  next
    case False
    have "x \<notin> set (first_occurrences (x # seen) xs)" by (simp add: set_first_occurrences)
    then have "map (first_index (x # xs)) (first_occurrences (x # seen) xs)
        = map (\<lambda>y. Suc (first_index xs y)) (first_occurrences (x # seen) xs)"
      by (rule first_index_Cons_other)
    moreover have "first_occurrences seen (x # xs) = x # first_occurrences (x # seen) xs"
      using False by simp
    moreover have "first_index (x # xs) x = 0" by simp
    ultimately have "map (first_index (x # xs)) (first_occurrences seen (x # xs))
        = 0 # map (\<lambda>y. Suc (first_index xs y)) (first_occurrences (x # seen) xs)"
      by (simp only: list.map)
    then show ?thesis
      using sorted_wrt_Suc [OF Cons.IH [of "x # seen"]] by (simp del: first_index.simps first_occurrences.simps)
  qed
qed

text \<open>
  C4. For every spellset, \<open>_spellset_contents\<close> returns the spells of the books, each
  once, in the order of their first occurrences when the books are read in order and the
  spells of each book in order: the list is the one the spec describes, it has no
  repetition, it holds exactly the spells of the set, and the positions of the first
  occurrences of its elements increase strictly along it.
\<close>

theorem spellset_contents_first_occurrences:
  "spellset_contents spell_set = first_occurrences [] (concat (map spells spell_set))
     \<and> distinct (spellset_contents spell_set)
     \<and> set (spellset_contents spell_set) = set (concat (map spells spell_set))
     \<and> sorted_wrt (<) (map (first_index (concat (map spells spell_set)))
                           (spellset_contents spell_set))"
proof (intro conjI)
  show "spellset_contents spell_set = first_occurrences [] (concat (map spells spell_set))"
    by (rule spellset_contents_eq)
  show "distinct (spellset_contents spell_set)"
    unfolding spellset_contents_eq by (rule distinct_first_occurrences)
  show "set (spellset_contents spell_set) = set (concat (map spells spell_set))"
    unfolding spellset_contents_eq set_first_occurrences by simp
  show "sorted_wrt (<) (map (first_index (concat (map spells spell_set)))
                           (spellset_contents spell_set))"
    unfolding spellset_contents_eq by (rule sorted_first_occurrences)
qed




subsection \<open>The letters of the spells\<close>

lemma length_chars_from: "length (chars_from c n) = n"
  by (induction n arbitrary: c) simp_all

lemma chars_from_add:
  "chars_from c (m + n) = chars_from c m @ chars_from ((next_char ^^ m) c) n"
  by (induction m arbitrary: c) (simp_all add: funpow_swap1)

lemma emplace_all_eq:
  "emplace_all flat (ret, c)
     = (ret @ zip flat (chars_from c (length flat)), (next_char ^^ length flat) c)"
  by (induction flat arbitrary: ret c) (simp_all add: emplace_all_def funpow_swap1)

lemma every_other_Cons: "every_other (y # xs) = y # every_other (tl xs)"
  by (cases xs) simp_all

lemma every_other_drop:
  assumes "i < length xs"
  shows "every_other (drop i xs) = xs ! i # every_other (drop (i + 2) xs)"
proof -
  from assms have "drop i xs = xs ! i # drop (Suc i) xs" by (simp add: Cons_nth_drop_Suc)
  then show ?thesis by (simp add: every_other_Cons drop_Suc tl_drop)
qed

lemma emplace_every_other_eq:
  "emplace_every_other flat i acc
     = (fst acc @ zip (every_other (drop i flat))
                      (chars_from (snd acc) (length (every_other (drop i flat)))),
        (next_char ^^ length (every_other (drop i flat))) (snd acc))"
proof (induction flat i acc rule: emplace_every_other.induct)
  case (1 flat i acc)
  show ?case
  proof (cases "i < length flat")
    case True
    from "1.IH" [OF True] True show ?thesis
      by (subst emplace_every_other.simps) (simp add: every_other_drop funpow_swap1)
  next
    case False
    then show ?thesis by (subst emplace_every_other.simps) simp
  qed
qed

lemma length_every_other: "length (every_other xs) + length (every_other (tl xs)) = length xs"
  by (induction xs rule: every_other.induct) (simp_all add: every_other_Cons)

lemma mset_every_other: "mset (every_other xs) + mset (every_other (tl xs)) = mset xs"
  by (induction xs rule: every_other.induct) (simp_all add: every_other_Cons)

lemma next_char_code: "(of_char (next_char c) :: nat) = (of_char c + 1) mod 256"
  by (simp add: next_char_def)

lemma char_of_add_mod: "(char_of ((a mod 256) + k :: nat) :: char) = char_of (a + k)"
  by (simp add: char_of_eq_iff take_bit_eq_mod mod_add_left_eq)

lemma chars_from_eq: "chars_from c n = map (\<lambda>k. char_of ((of_char c :: nat) + k)) [0..<n]"
proof (induction n arbitrary: c)
  case 0
  then show ?case by simp
next
  case (Suc n)
  have "map (\<lambda>k. char_of ((of_char c :: nat) + k)) [0..<Suc n]
      = char_of (of_char c :: nat) # map (\<lambda>k. char_of ((of_char c :: nat) + Suc k)) [0..<n]"
    by (simp only: map_upt_Suc list.map) simp
  also have "\<dots> = c # map (\<lambda>k. char_of ((of_char (next_char c) :: nat) + k)) [0..<n]"
    by (simp add: next_char_code char_of_add_mod)
  finally show ?case using Suc.IH [of "next_char c"] by simp
qed

lemma map_chars_single:
  "map_chars_to_spells spell_set (Some item)
     = zip (spellset_contents spell_set)
           (map (\<lambda>k. char_of (97 + k :: nat)) [0..<length (spellset_contents spell_set)])"
  by (simp add: map_chars_to_spells_def list_spells_doublecolumn_def emplace_all_eq chars_from_eq
      Let_def)

lemma map_chars_double:
  "map_chars_to_spells spell_set None
     = zip (every_other (spellset_contents spell_set) @ every_other (tl (spellset_contents spell_set)))
           (map (\<lambda>k. char_of (97 + k :: nat)) [0..<length (spellset_contents spell_set)])"
proof -
  let ?flat = "spellset_contents spell_set"
  let ?m = "length (every_other ?flat)" and ?n = "length (every_other (tl ?flat))"
  have "map_chars_to_spells spell_set None
      = zip (every_other ?flat) (chars_from (CHR ''a'') ?m)
        @ zip (every_other (tl ?flat)) (chars_from ((next_char ^^ ?m) (CHR ''a'')) ?n)"
    by (simp add: map_chars_to_spells_def list_spells_doublecolumn_def emplace_every_other_eq
        drop_Suc Let_def)
  also have "\<dots> = zip (every_other ?flat @ every_other (tl ?flat)) (chars_from (CHR ''a'') (?m + ?n))"
    by (simp add: chars_from_add length_chars_from)
  finally show ?thesis by (simp add: length_every_other chars_from_eq)
qed

lemma alphabet_chars:
  "map (\<lambda>k. char_of (97 + k :: nat)) [0..<26] = ''abcdefghijklmnopqrstuvwxyz''"
  by code_simp



lemma length_every_other_half: "length (every_other xs) = (length xs + 1) div 2"
  by (induction xs rule: every_other.induct) simp_all

lemma every_other_nth:
  assumes "k < length (every_other xs)"
  shows "every_other xs ! k = xs ! (2 * k)"
  using assms
proof (induction xs arbitrary: k rule: every_other.induct)
  case (3 x y xs)
  then show ?case by (cases k) simp_all
qed simp_all

text \<open>
  C5. With a source item (single column) the spell at position \<open>k\<close> of the deduplicated
  list gets the character \<open>'a' + k\<close>, in the arithmetic of an 8-bit \<open>char\<close>. Without
  one (double column) the spells at the even positions come first, then those at the odd
  positions, and the characters \<open>'a'\<close>, \<open>'a' + 1\<close>, \<dots> are handed out along that
  order. The first 26 of these characters are the letters \<open>a\<close> to \<open>z\<close>.
\<close>

theorem map_chars_to_spells_letter_order:
  "map_chars_to_spells spell_set (Some item)
     = zip (spellset_contents spell_set)
           (map (\<lambda>k. char_of (97 + k :: nat)) [0..<length (spellset_contents spell_set)])
   \<and> map_chars_to_spells spell_set None
     = zip (every_other (spellset_contents spell_set)
              @ every_other (tl (spellset_contents spell_set)))
           (map (\<lambda>k. char_of (97 + k :: nat)) [0..<length (spellset_contents spell_set)])
   \<and> map (\<lambda>k. char_of (97 + k :: nat)) [0..<26] = ''abcdefghijklmnopqrstuvwxyz''"
  using map_chars_single [of spell_set item] map_chars_double [of spell_set] alphabet_chars
  by (simp only: simp_thms)

subsection \<open>The letter map as a permutation\<close>

lemma map_chars_keys:
  "mset (map fst (map_chars_to_spells spell_set source_item)) = mset (spellset_contents spell_set)"
proof (cases source_item)
  case None
  have "length (every_other (spellset_contents spell_set) @ every_other (tl (spellset_contents spell_set)))
      = length (map (\<lambda>k. char_of (97 + k :: nat)) [0..<length (spellset_contents spell_set)])"
    by (simp add: length_every_other)
  then have "map fst (map_chars_to_spells spell_set None)
      = every_other (spellset_contents spell_set) @ every_other (tl (spellset_contents spell_set))"
    unfolding map_chars_double by (rule map_fst_zip)
  with None show ?thesis by (simp add: mset_every_other)
next
  case (Some item)
  then show ?thesis by (simp add: map_chars_single)
qed

lemma map_chars_values:
  "map snd (map_chars_to_spells spell_set source_item)
     = map (\<lambda>k. char_of (97 + k :: nat)) [0..<length (spellset_contents spell_set)]"
proof (cases source_item)
  case None
  have "length (every_other (spellset_contents spell_set) @ every_other (tl (spellset_contents spell_set)))
      = length (map (\<lambda>k. char_of (97 + k :: nat)) [0..<length (spellset_contents spell_set)])"
    by (simp add: length_every_other)
  then have "map snd (map_chars_to_spells spell_set None)
      = map (\<lambda>k. char_of (97 + k :: nat)) [0..<length (spellset_contents spell_set)]"
    unfolding map_chars_double by (rule map_snd_zip)
  with None show ?thesis by simp
next
  case (Some item)
  then show ?thesis by (simp add: map_chars_single)
qed

lemma mod_256_below_512:
  assumes "x < 512"
  shows "(x::nat) mod 256 = (if x < 256 then x else x - 256)"
proof (cases "x < 256")
  case True
  then show ?thesis by simp
next
  case False
  with assms have "x mod 256 = (x - 256) mod 256" "x - 256 < 256"
    by (simp_all add: le_mod_geq)
  with False show ?thesis by simp
qed

lemma chars_distinct:
  assumes "n \<le> 256"
  shows "distinct (map (\<lambda>k. char_of (97 + k :: nat) :: char) [0..<n])"
proof -
  have "inj_on (\<lambda>k. char_of (97 + k :: nat) :: char) {0..<n}"
  proof (rule inj_onI)
    fix j k assume "j \<in> {0..<n}" "k \<in> {0..<n}"
      and "(char_of (97 + j :: nat) :: char) = char_of (97 + k)"
    with assms have jk: "j < 256" "k < 256" and "(97 + j) mod 256 = (97 + k) mod 256"
      by (simp_all add: char_of_eq_iff take_bit_eq_mod)
    moreover from jk have "97 + j < 512" "97 + k < 512" by simp_all
    ultimately have "(if 97 + j < 256 then 97 + j else 97 + j - 256)
        = (if 97 + k < 256 then 97 + k else 97 + k - 256)"
      by (simp only: mod_256_below_512)
    with jk show "j = k" by (simp split: if_splits)
  qed
  then show ?thesis by (simp add: distinct_map)
qed

text \<open>
  C9, as amended. For every spellset and source item, the spells of the letter map are
  a permutation of the deduplicated list: each spell of the set is a key exactly once.
  The characters are \<open>'a' + k\<close> for \<open>k\<close> from 0 on, in 8-bit arithmetic, and they do
  not repeat as long as the set has at most 256 different spells.
\<close>

theorem map_chars_to_spells_permutation:
  "mset (map fst (map_chars_to_spells spell_set source_item)) = mset (spellset_contents spell_set)
   \<and> distinct (map fst (map_chars_to_spells spell_set source_item))
   \<and> set (map fst (map_chars_to_spells spell_set source_item)) = set (concat (map spells spell_set))
   \<and> map snd (map_chars_to_spells spell_set source_item)
       = map (\<lambda>k. char_of (97 + k :: nat)) [0..<length (spellset_contents spell_set)]
   \<and> (length (spellset_contents spell_set) \<le> 256
        \<longrightarrow> distinct (map snd (map_chars_to_spells spell_set source_item)))"
proof (intro conjI impI)
  show m: "mset (map fst (map_chars_to_spells spell_set source_item))
      = mset (spellset_contents spell_set)"
    by (rule map_chars_keys)
  have d: "distinct (spellset_contents spell_set)"
    unfolding spellset_contents_eq by (rule distinct_first_occurrences)
  from m d show "distinct (map fst (map_chars_to_spells spell_set source_item))"
    by (metis mset_eq_imp_distinct_iff)
  have "set (map fst (map_chars_to_spells spell_set source_item)) = set (spellset_contents spell_set)"
    using m by (rule mset_eq_setD)
  also have "\<dots> = set (concat (map spells spell_set))"
    unfolding spellset_contents_eq set_first_occurrences by simp
  finally show "set (map fst (map_chars_to_spells spell_set source_item))
      = set (concat (map spells spell_set))" .
  show "map snd (map_chars_to_spells spell_set source_item)
       = map (\<lambda>k. char_of (97 + k :: nat)) [0..<length (spellset_contents spell_set)]"
    by (rule map_chars_values)
  assume "length (spellset_contents spell_set) \<le> 256"
  then show "distinct (map snd (map_chars_to_spells spell_set source_item))"
    unfolding map_chars_values by (rule chars_distinct)
qed



lemma first_occurrences_distinct:
  assumes "distinct xs" and "set xs \<inter> set seen = {}"
  shows "first_occurrences seen xs = xs"
  using assms by (induction xs arbitrary: seen) auto

lemma many_spells_contents:
  "spellset_contents [\<lparr>label = '''', spells = map SPELL_OTHER [0..<257]\<rparr>] = map SPELL_OTHER [0..<257]"
proof -
  have "distinct (map SPELL_OTHER [0..<257])" by (simp add: distinct_map inj_on_def)
  then show ?thesis by (simp add: spellset_contents_eq first_occurrences_distinct)
qed

text \<open>
  C9, as stated, promises characters with no repeats for every spellset. The counter
  \<open>next_ch\<close> is a \<open>char\<close> and wraps: with 257 different spells the last spell gets
  \<open>'a'\<close> again.
\<close>

theorem map_chars_to_spells_repeats_letter:
  "\<not> distinct (map snd (map_chars_to_spells
        [\<lparr>label = '''', spells = map SPELL_OTHER [0..<257]\<rparr>] None))"
proof -
  let ?cs = "map (\<lambda>k. char_of (97 + k :: nat) :: char) [0..<257]"
  have "?cs ! 0 = ?cs ! 256" by (simp add: char_of_eq_iff take_bit_eq_mod)
  moreover have "(0::nat) < length ?cs" "256 < length ?cs" "(0::nat) \<noteq> 256" by simp_all
  ultimately have "\<not> distinct ?cs" by (metis nth_eq_iff_index_eq)
  then show ?thesis by (simp add: map_chars_values many_spells_contents)
qed

text \<open>The amended statement at two books that share a spell.\<close>

theorem map_chars_to_spells_permutation_witness:
  "length (spellset_contents [\<lparr>label = ''x'', spells = [SPELL_FREEZE, SPELL_IOOD, SPELL_FREEZE]\<rparr>,
                              \<lparr>label = ''y'', spells = [SPELL_SMITING, SPELL_IOOD]\<rparr>]) \<le> 256
   \<and> map_chars_to_spells [\<lparr>label = ''x'', spells = [SPELL_FREEZE, SPELL_IOOD, SPELL_FREEZE]\<rparr>,
                           \<lparr>label = ''y'', spells = [SPELL_SMITING, SPELL_IOOD]\<rparr>] None
       = [(SPELL_FREEZE, CHR ''a''), (SPELL_SMITING, CHR ''b''), (SPELL_IOOD, CHR ''c'')]
   \<and> distinct (map snd (map_chars_to_spells
        [\<lparr>label = ''x'', spells = [SPELL_FREEZE, SPELL_IOOD, SPELL_FREEZE]\<rparr>,
         \<lparr>label = ''y'', spells = [SPELL_SMITING, SPELL_IOOD]\<rparr>] None))"
proof -
  let ?s = "[\<lparr>label = ''x'', spells = [SPELL_FREEZE, SPELL_IOOD, SPELL_FREEZE]\<rparr>,
             \<lparr>label = ''y'', spells = [SPELL_SMITING, SPELL_IOOD]\<rparr>]"
  have c: "spellset_contents ?s = [SPELL_FREEZE, SPELL_IOOD, SPELL_SMITING]"
    by (simp add: spellset_contents_eq)
  have l: "length (spellset_contents ?s) \<le> 256" by (simp add: c)
  have e: "map_chars_to_spells ?s None
      = [(SPELL_FREEZE, CHR ''a''), (SPELL_SMITING, CHR ''b''), (SPELL_IOOD, CHR ''c'')]"
    by code_simp
  have d: "distinct (map snd (map_chars_to_spells ?s None))"
    using map_chars_to_spells_permutation [of ?s None] l by blast
  show ?thesis by (intro conjI) (rule l e d)+
qed

subsection \<open>The reads of \_colourize\<close>

lemma int_of_size_t_le: "int_of_size_t n \<le> int n"
proof -
  define m where "m = n mod 2 ^ 32"
  have "m \<le> n" unfolding m_def by simp
  then have a: "int m \<le> int n" by (simp only: of_nat_le_iff)
  have "(0::int) \<le> 2 ^ 32" by simp
  with a have c: "int m - 2 ^ 32 \<le> int n" by linarith
  show ?thesis
  proof (cases "m < 2 ^ 31")
    case True
    with a show ?thesis
      by (simp only: int_of_size_t_def Let_def m_def [symmetric] if_True)
  next
    case False
    with c show ?thesis
      by (simp only: int_of_size_t_def Let_def m_def [symmetric] if_False)
  qed
qed

lemma string_at_in_range: "pos < length base \<Longrightarrow> string_at base pos = Inr (base ! pos)"
  by (simp add: string_at_def)

lemma colourize_loop_returns:
  "\<exists>out'. colourize_loop eng st base col i out = Inr out'"
proof (induction eng st base col i out rule: colourize_loop.induct)
  case (1 eng st base col i out)
  show ?case
  proof (cases "int i < int_of_size_t (length base) - 1")
    case True
    with int_of_size_t_le [of "length base"] have "i < length base" by simp
    then have at: "string_at base i = Inr (base ! i)" by (rule string_at_in_range)
    from "1.IH" [OF True refl refl at] True at show ?thesis
      by (subst colourize_loop.simps) (simp add: Let_def)
  next
    case False
    then show ?thesis by (subst colourize_loop.simps) simp
  qed
qed

lemma size_t_minus_1_pos:
  assumes "0 < n"
  shows "size_t_minus_1 n < n"
proof -
  have "(n mod 2 ^ 64 + (2 ^ 64 - 1)) mod 2 ^ 64 \<le> n - 1"
  proof (cases "n mod 2 ^ 64 = 0")
    case True
    with assms have "(2::nat) ^ 64 \<le> n" by (simp add: mod_eq_0_iff_dvd dvd_imp_le)
    moreover have "(n mod 2 ^ 64 + (2 ^ 64 - 1)) mod 2 ^ 64 < (2::nat) ^ 64" by simp
    ultimately show ?thesis by linarith
  next
    case False
    then have "n mod 2 ^ 64 + (2 ^ 64 - 1) = (n mod 2 ^ 64 - 1) + 2 ^ 64" by simp
    then have "(n mod 2 ^ 64 + (2 ^ 64 - 1)) mod 2 ^ 64 = (n mod 2 ^ 64 - 1) mod 2 ^ 64"
      by (simp only: mod_add_self2)
    also have "\<dots> \<le> n mod 2 ^ 64 - 1" by simp
    also have "\<dots> \<le> n - 1" by (simp add: diff_le_mono)
    finally show ?thesis .
  qed
  with assms show ?thesis by (simp add: size_t_minus_1_def)
qed

text \<open>On a string that is not empty every read of \<open>_colourize\<close> is in range.\<close>

lemma colourize_nonempty:
  assumes "base \<noteq> []"
  shows "\<exists>out. colourize eng st base col = Inr out"
proof (cases "col < NUM_TERM_COLOURS eng")
  case True
  then show ?thesis by (simp add: colourize_def Let_def)
next
  case False
  from assms have first: "string_at base 0 = Inr (base ! 0)" by (simp add: string_at_def)
  obtain out' where loop: "colourize_loop eng st base col 1 [base ! 0] = Inr out'"
    using colourize_loop_returns by blast
  from assms have "size_t_minus_1 (length base) < length base"
    by (simp add: size_t_minus_1_pos)
  then have last: "string_at base (size_t_minus_1 (length base))
      = Inr (base ! size_t_minus_1 (length base))" by (rule string_at_in_range)
  from False first loop last show ?thesis by (simp add: colourize_def)
qed

text \<open>On the empty string, with an elemental colour, the last read is out of range.\<close>

lemma colourize_empty:
  assumes "NUM_TERM_COLOURS eng \<le> col"
  shows "colourize eng st [] col = Inl Out_of_range"
proof -
  have "colourize_loop eng st [] col 1 [CHR 0x00] = Inr [CHR 0x00]"
    by (subst colourize_loop.simps) (simp add: int_of_size_t_def)
  with assms show ?thesis
    by (simp add: colourize_def string_at_def size_t_minus_1_def)
qed

lemma effect_string_no_owner: "effect_string eng st spell None = Some []"
  by (subst effect_string.simps) simp

lemma effect_string_plain_spell:
  assumes "spell \<noteq> SPELL_CONJURE_LIVING_SPELLS"
  shows "effect_string eng st spell (Some mon) = Some (effect_string_plain eng st spell mon)"
  using assms by (subst effect_string.simps) simp

lemma effect_string_returns:
  assumes "\<And>mon. mon_owner = Some mon
     \<Longrightarrow> living_spell_type_for eng (type_mi mon) \<noteq> SPELL_CONJURE_LIVING_SPELLS"
  shows "\<exists>s. effect_string eng st spell mon_owner = Some s"
proof (cases mon_owner)
  case None
  then show ?thesis by (simp add: effect_string_no_owner)
next
  case (Some mon)
  show ?thesis
  proof (cases "spell = SPELL_CONJURE_LIVING_SPELLS")
    case True
    from assms [OF Some]
    have inner: "effect_string eng st (living_spell_type_for eng (type_mi mon)) (Some mon)
        = Some (effect_string_plain eng st (living_spell_type_for eng (type_mi mon)) mon)"
      by (rule effect_string_plain_spell)
    show ?thesis unfolding Some True
      by (subst effect_string.simps) (simp add: inner)
  next
    case False
    then show ?thesis unfolding Some by (simp add: effect_string_plain_spell)
  qed
qed

subsection \<open>The web renderer and the empty effect string\<close>

lemma demo_colour_elemental: "spell_colour demo_engine (SPELL_OTHER 0) = 32"
  by (simp add: spell_colour_def demo_engine_def)

lemma demo_no_flags: "get_spell_flags demo_engine (SPELL_OTHER 0) = {}"
  by (simp add: demo_engine_def)

lemma demo_term_colours: "NUM_TERM_COLOURS demo_engine = 16"
  by (simp add: demo_engine_def)

text \<open>
  C10. The claim: \<open>_colourize\<close> reads only positions of \<open>base\<close> that are in range,
  also on the empty string, which \<open>_write_book\<close> can pass with a colour that is not a
  terminal colour. On the empty string \<open>base.length() - 1\<close> wraps to the largest
  \<open>size_t\<close> and \<open>base[base.length() - 1]\<close> is out of range. \<open>_write_book\<close> reaches
  this for a spell of a book (no monster owner, so the effect string is empty) whose zap
  has an elemental colour: it colours the effect string without testing its length, a
  test that \<open>_describe_book\<close> makes.
\<close>

theorem write_book_colourizes_empty_effect_string:
  "NUM_TERM_COLOURS demo_engine \<le> spell_colour demo_engine (SPELL_OTHER 0)
   \<and> effect_string demo_engine demo_state (SPELL_OTHER 0) None = Some ''''
   \<and> colourize demo_engine demo_state '''' (spell_colour demo_engine (SPELL_OTHER 0))
       = Inl Out_of_range
   \<and> write_book_spell demo_engine demo_state [(SPELL_OTHER 0, CHR ''a'')] (Some demo_book)
        None (SPELL_OTHER 0) = Some (Inl Out_of_range)"
proof -
  have c: "colourize demo_engine demo_state '''' 32 = Inl Out_of_range"
    by (rule colourize_empty) (simp add: demo_term_colours)
  then show ?thesis
    by (simp add: write_book_spell_def effect_string_no_owner demo_colour_elemental
        demo_no_flags demo_term_colours testbits_def)
qed

text \<open>\<open>_describe_book\<close> colours the effect string only when it is not empty, so it never reads out of range.\<close>

lemma describe_book_spell_in_range:
  "describe_book_spell eng st spell_map mon_owner spell \<noteq> Some (Inl e)"
proof (cases "effect_string eng st spell mon_owner")
  case None
  then show ?thesis by (simp add: describe_book_spell_def)
next
  case (Some effect_str)
  show ?thesis
  proof (cases "effect_str = []")
    case True
    with Some show ?thesis by (simp add: describe_book_spell_def Let_def)
  next
    case False
    then obtain out where "colourize eng st effect_str (spell_colour eng spell) = Inr out"
      using colourize_nonempty by blast
    with Some False show ?thesis by (simp add: describe_book_spell_def Let_def)
  qed
qed

subsection \<open>Lookups that find nothing\<close>

lemma lookup_missing:
  assumes "key \<notin> fst ` set m"
  shows "lookup m key unfound = unfound"
  using assms by (simp add: lookup_def map_of_eq_None_iff [THEN iffD2])

lemma find_spell_letter_missing:
  assumes "spell \<notin> fst ` set spell_map"
  shows "find_spell_letter spell_map spell = CHR '' ''"
proof -
  from assms have "find (\<lambda>e. fst e = spell) spell_map = None"
    by (force simp: find_None_iff)
  then show ?thesis by (simp add: find_spell_letter_def)
qed

lemma describe_book_spell_shape:
  assumes "effect_string eng st spell mon_owner = Some effect_str"
  shows "\<exists>rest. describe_book_spell eng st spell_map mon_owner spell
           = Some (Inr (find_spell_letter spell_map spell # '' - '' @ rest))"
proof (cases "effect_str = []")
  case True
  with assms show ?thesis by (simp add: describe_book_spell_def Let_def)
next
  case False
  then obtain out where "colourize eng st effect_str (spell_colour eng spell) = Inr out"
    using colourize_nonempty by blast
  with assms False show ?thesis by (simp add: describe_book_spell_def Let_def)
qed

lemma write_book_spell_letter:
  assumes "write_book_spell eng st spell_map source_item mon_owner spell = Some (Inr js)"
  shows "letter_json js = [find_spell_letter spell_map spell]"
proof (cases "effect_string eng st spell mon_owner")
  case None
  with assms show ?thesis by (simp add: write_book_spell_def)
next
  case (Some effect_str)
  define coloured where "coloured =
    (if \<not> testbits (get_spell_flags eng spell) WL_check
     then colourize eng st effect_str (spell_colour eng spell) else Inr effect_str)"
  show ?thesis
  proof (cases coloured)
    case (Inl e)
    with assms Some show ?thesis
      by (simp add: write_book_spell_def Let_def coloured_def [symmetric])
  next
    case (Inr out)
    with assms Some show ?thesis
      by (auto simp: write_book_spell_def Let_def coloured_def [symmetric])
  qed
qed

lemma write_book_spell_completes:
  assumes "effect_string eng st spell mon_owner = Some effect_str"
    and "testbits (get_spell_flags eng spell) WL_check
         \<or> spell_colour eng spell < NUM_TERM_COLOURS eng \<or> effect_str \<noteq> []"
  shows "\<exists>js. write_book_spell eng st spell_map source_item mon_owner spell = Some (Inr js)"
proof (cases "testbits (get_spell_flags eng spell) WL_check")
  case True
  with assms(1) show ?thesis by (simp add: write_book_spell_def Let_def)
next
  case False
  have "\<exists>out. colourize eng st effect_str (spell_colour eng spell) = Inr out"
  proof (cases "spell_colour eng spell < NUM_TERM_COLOURS eng")
    case True
    then show ?thesis by (simp add: colourize_def Let_def)
  next
    case no_term: False
    with assms(2) False have "effect_str \<noteq> []" by simp
    then show ?thesis by (rule colourize_nonempty)
  qed
  then obtain out where "colourize eng st effect_str (spell_colour eng spell) = Inr out" ..
  with assms(1) False show ?thesis by (simp add: write_book_spell_def Let_def)
qed

text \<open>
  What holds of the lookups. A flag that is no key of the descriptor table gets the
  descriptor \<open>buggy\<close>. A spell that is no key of the letter map gets a blank:
  \<open>_describe_book\<close> produces its line, which starts with the blank and \<open>" - "\<close>, and
  \<open>_write_book\<close> produces its object, with the letter \<open>" "\<close>, unless it comes to colour
  an empty effect string with an elemental colour. Both need the effect string to
  return, which it does when the engine does not name Conjure Living Spells as the
  living spell of the monster.
\<close>

lemma lookups_fail_soft:
  "(type \<notin> fst ` set descriptors \<longrightarrow> ability_type_descriptor type = ''buggy'')
   \<and> (spell \<notin> fst ` set spell_map \<longrightarrow>
        find_spell_letter spell_map spell = CHR '' ''
        \<and> ((\<forall>mon. mon_owner = Some mon
               \<longrightarrow> living_spell_type_for eng (type_mi mon) \<noteq> SPELL_CONJURE_LIVING_SPELLS)
             \<longrightarrow> (\<exists>rest. describe_book_spell eng st spell_map mon_owner spell
                           = Some (Inr (CHR '' '' # '' - '' @ rest))))
        \<and> ((\<forall>mon. mon_owner = Some mon
               \<longrightarrow> living_spell_type_for eng (type_mi mon) \<noteq> SPELL_CONJURE_LIVING_SPELLS)
             \<and> (testbits (get_spell_flags eng spell) WL_check
                 \<or> spell_colour eng spell < NUM_TERM_COLOURS eng
                 \<or> effect_string eng st spell mon_owner \<noteq> Some [])
             \<longrightarrow> (\<exists>js. write_book_spell eng st spell_map source_item mon_owner spell
                           = Some (Inr js) \<and> letter_json js = '' '')))"
proof (intro conjI impI)
  assume "type \<notin> fst ` set descriptors"
  then show "ability_type_descriptor type = ''buggy''"
    unfolding ability_type_descriptor_def by (rule lookup_missing)
next
  assume "spell \<notin> fst ` set spell_map"
  then show "find_spell_letter spell_map spell = CHR '' ''" by (rule find_spell_letter_missing)
next
  assume missing: "spell \<notin> fst ` set spell_map"
    and settle: "\<forall>mon. mon_owner = Some mon
      \<longrightarrow> living_spell_type_for eng (type_mi mon) \<noteq> SPELL_CONJURE_LIVING_SPELLS"
  from settle obtain effect_str where "effect_string eng st spell mon_owner = Some effect_str"
    using effect_string_returns [of mon_owner eng st spell] by blast
  from describe_book_spell_shape [OF this, of spell_map]
  show "\<exists>rest. describe_book_spell eng st spell_map mon_owner spell
          = Some (Inr (CHR '' '' # '' - '' @ rest))"
    by (simp only: find_spell_letter_missing [OF missing])
next
  assume missing: "spell \<notin> fst ` set spell_map"
    and hyp: "(\<forall>mon. mon_owner = Some mon
               \<longrightarrow> living_spell_type_for eng (type_mi mon) \<noteq> SPELL_CONJURE_LIVING_SPELLS)
             \<and> (testbits (get_spell_flags eng spell) WL_check
                 \<or> spell_colour eng spell < NUM_TERM_COLOURS eng
                 \<or> effect_string eng st spell mon_owner \<noteq> Some [])"
  from hyp obtain effect_str where e: "effect_string eng st spell mon_owner = Some effect_str"
    using effect_string_returns [of mon_owner eng st spell] by blast
  with hyp have "testbits (get_spell_flags eng spell) WL_check
      \<or> spell_colour eng spell < NUM_TERM_COLOURS eng \<or> effect_str \<noteq> []" by auto
  from write_book_spell_completes [OF e this]
  obtain js where js: "write_book_spell eng st spell_map source_item mon_owner spell = Some (Inr js)"
    by blast
  then have "letter_json js = '' ''"
    by (simp add: write_book_spell_letter find_spell_letter_missing [OF missing])
  with js show "\<exists>js. write_book_spell eng st spell_map source_item mon_owner spell
                           = Some (Inr js) \<and> letter_json js = '' ''" by blast
qed

text \<open>The renderer on the small instance of the engine.\<close>

lemma show_int_digits:
  "show_int 1 = ''1''" "show_int 6 = ''6''" "show_int 7 = ''7''" "show_int 9 = ''9''"
  "show_int 11 = ''11''"
  by code_simp+

lemma demo_flags_iood: "get_spell_flags demo_engine SPELL_IOOD = {}"
  by (simp add: demo_engine_def)

lemma demo_effect_plain_iood:
  "effect_string_plain demo_engine demo_state SPELL_IOOD demo_monster = ''(9d6)''"
  by (simp add: effect_string_plain_def spell_hd_def spell_damage_def demo_engine_def
      demo_monster_def testbits_def show_int_digits)

lemma demo_effect_iood:
  "effect_string demo_engine demo_state SPELL_IOOD (Some demo_monster) = Some ''(9d6)''"
  by (simp add: effect_string_plain_spell demo_effect_plain_iood)

lemma demo_range_iood:
  "range_string demo_engine demo_state SPELL_IOOD (Some demo_monster) 5
     = ''(<lightred>7</lightred>)''"
  by (simp add: range_string_def demo_engine_def demo_state_def demo_monster_def testbits_def
      show_int_digits)

lemma demo_colour_iood: "spell_colour demo_engine SPELL_IOOD = 13"
  by (simp add: spell_colour_def demo_engine_def)

lemma demo_colourize_iood:
  "colourize demo_engine demo_state ''(9d6)'' 13 = Inr ''<lightmagenta>(9d6)</lightmagenta>''"
  by (simp add: colourize_def demo_engine_def)

lemma demo_chop_iood:
  "chop_string demo_engine (spell_title demo_engine SPELL_IOOD) 21 = ''Orb of Destruction   ''"
  by (simp add: demo_engine_def eval_nat_numeral)

lemma demo_hd: "spell_hd_mi demo_engine demo_monster = 5"
  by (simp add: demo_engine_def demo_monster_def)

lemma demo_describe_iood:
  "describe_book_spell demo_engine demo_state [(SPELL_FREEZE, CHR ''a'')] (Some demo_monster) SPELL_IOOD
     = Some (Inr ''  - Orb of Destruction   <lightmagenta>(9d6)</lightmagenta> (<lightred>7</lightred>)'')"
  by (simp add: describe_book_spell_def demo_effect_iood demo_range_iood demo_colour_iood
      demo_colourize_iood demo_chop_iood demo_hd demo_flags_iood testbits_def
      find_spell_letter_def)

lemma demo_write_iood:
  "map_option (map_sum id letter_json)
     (write_book_spell demo_engine demo_state [(SPELL_FREEZE, CHR ''a'')] None (Some demo_monster) SPELL_IOOD)
     = Some (Inr '' '')"
  by (simp add: write_book_spell_def demo_effect_iood demo_range_iood demo_colour_iood
      demo_colourize_iood demo_hd demo_flags_iood testbits_def find_spell_letter_def)

lemma lookups_fail_soft_example:
  "MON_SPELL_WIZARD \<notin> fst ` set descriptors
   \<and> ability_type_descriptor MON_SPELL_WIZARD = ''buggy''
   \<and> SPELL_IOOD \<notin> fst ` set [(SPELL_FREEZE, CHR ''a'')]
   \<and> find_spell_letter [(SPELL_FREEZE, CHR ''a'')] SPELL_IOOD = CHR '' ''
   \<and> living_spell_type_for demo_engine (type_mi demo_monster) \<noteq> SPELL_CONJURE_LIVING_SPELLS
   \<and> describe_book_spell demo_engine demo_state [(SPELL_FREEZE, CHR ''a'')] (Some demo_monster)
        SPELL_IOOD
       = Some (Inr ''  - Orb of Destruction   <lightmagenta>(9d6)</lightmagenta> (<lightred>7</lightred>)'')
   \<and> map_option (map_sum id letter_json)
        (write_book_spell demo_engine demo_state [(SPELL_FREEZE, CHR ''a'')] None
           (Some demo_monster) SPELL_IOOD)
       = Some (Inr '' '')"
proof -
  have h1: "MON_SPELL_WIZARD \<notin> fst ` set descriptors" by (simp add: descriptors_def)
  have h2: "SPELL_IOOD \<notin> fst ` set [(SPELL_FREEZE, CHR ''a'')]" by simp
  have h3: "living_spell_type_for demo_engine (type_mi demo_monster) \<noteq> SPELL_CONJURE_LIVING_SPELLS"
    by (simp add: demo_engine_def)
  note inst = lookups_fail_soft [of MON_SPELL_WIZARD SPELL_IOOD "[(SPELL_FREEZE, CHR ''a'')]"
      "Some demo_monster" demo_engine demo_state None]
  from inst h1 have c1: "ability_type_descriptor MON_SPELL_WIZARD = ''buggy''" by blast
  from inst h2 have c2: "find_spell_letter [(SPELL_FREEZE, CHR ''a'')] SPELL_IOOD = CHR '' ''"
    by blast
  show ?thesis
    by (intro conjI) (rule h1 c1 h2 c2 h3 demo_describe_iood demo_write_iood)+
qed



subsection \<open>The terse list of an item's spells\<close>

lemma digit_char_code: "k < 10 \<Longrightarrow> (of_char (char_of (48 + k :: nat) :: char) :: nat) = 48 + k"
  by simp

lemma digit_not_newline:
  assumes "k < 10"
  shows "(char_of (48 + k :: nat) :: char) \<noteq> CHR 0x0A"
proof
  assume "(char_of (48 + k :: nat) :: char) = CHR 0x0A"
  then have "(of_char (char_of (48 + k :: nat) :: char) :: nat) = of_char (CHR 0x0A)" by simp
  with assms show False by (simp only: digit_char_code) simp
qed

lemma show_nat_no_newline: "CHR 0x0A \<notin> set (show_nat n)"
proof (induction n rule: show_nat.induct)
  case (1 n)
  show ?case
  proof (cases "n < 10")
    case True
    then show ?thesis using digit_not_newline [of n] by (subst show_nat.simps) auto
  next
    case False
    have "n mod 10 < 10" by simp
    from digit_not_newline [OF this] "1.IH" [OF False] False show ?thesis
      by (subst show_nat.simps) auto
  qed
qed

lemma show_int_no_newline: "CHR 0x0A \<notin> set (show_int i)"
  by (simp add: show_int_def show_nat_no_newline)

lemma fold_chars:
  assumes "\<And>f acc. set (g f acc) \<subseteq> set acc \<union> S \<union> set (name f)"
  shows "set (fold g fs acc) \<subseteq> set acc \<union> S \<union> (\<Union>f \<in> set fs. set (name f))"
proof (induction fs arbitrary: acc)
  case Nil
  then show ?case by simp
next
  case (Cons f fs)
  have "set (fold g (f # fs) acc) = set (fold g fs (g f acc))" by simp
  also have "\<dots> \<subseteq> set (g f acc) \<union> S \<union> (\<Union>f \<in> set fs. set (name f))" by (rule Cons.IH)
  also have "\<dots> \<subseteq> set acc \<union> S \<union> (\<Union>f \<in> set (f # fs). set (name f))"
    using assms [of f acc] by auto
  finally show ?case .
qed

lemma spell_schools_no_newline:
  assumes "\<forall>school \<in> set (spschools_range eng). CHR 0x0A \<notin> set (spelltype_long_name eng school)"
  shows "CHR 0x0A \<notin> set (spell_schools eng spell)"
proof -
  have "set (spell_schools eng spell)
      \<subseteq> set [] \<union> {CHR ''/''} \<union> (\<Union>f \<in> set (spschools_range eng). set (spelltype_long_name eng f))"
    unfolding spell_schools_def by (rule fold_chars) (auto simp: Let_def)
  with assms show ?thesis by auto
qed

lemma comma_separated_line_chars:
  "set (comma_separated_line andc comma xs) \<subseteq> set andc \<union> set comma \<union> (\<Union>x \<in> set xs. set x)"
  by (induction andc comma xs rule: comma_separated_line.induct) auto

lemma fold_push_back: "fold (\<lambda>x acc. acc @ [f x]) xs acc = acc @ map f xs"
  by (induction xs arbitrary: acc) simp_all

lemma terse_spell_list_eq:
  "terse_spell_list eng andc comma item
     = ''Spells: '' @ comma_separated_line andc comma
                        (map (terse_spell_desc eng) (spells_in_book eng item))"
  by (simp add: terse_spell_list_def fold_push_back)

lemma terse_spell_desc_no_newline:
  assumes "CHR 0x0A \<notin> set (spell_title eng spell)"
    and "\<forall>school \<in> set (spschools_range eng). CHR 0x0A \<notin> set (spelltype_long_name eng school)"
  shows "CHR 0x0A \<notin> set (terse_spell_desc eng spell)"
  using assms(1) spell_schools_no_newline [OF assms(2), of spell] show_int_no_newline
  by (simp add: terse_spell_desc_def)

text \<open>
  C7. For every item \<open>terse_spell_list\<close> returns \<open>"Spells: "\<close> followed by one entry
  \<open>name (Llevel schools)\<close> for each spell of the book, in the order of the book, joined
  into one line by the separators. When no title of a spell of the book, no name of a
  school and neither separator holds a newline, the result holds none.
\<close>

theorem terse_spell_list_single_line:
  "terse_spell_list eng andc comma item
     = ''Spells: '' @ comma_separated_line andc comma
         (map (\<lambda>spell. spell_title eng spell @ '' (L'' @ show_int (spell_difficulty eng spell)
                          @ '' '' @ spell_schools eng spell @ '')'')
              (spells_in_book eng item))
   \<and> prefix ''Spells: '' (terse_spell_list eng andc comma item)
   \<and> ((\<forall>spell \<in> set (spells_in_book eng item). CHR 0x0A \<notin> set (spell_title eng spell))
        \<and> (\<forall>school \<in> set (spschools_range eng). CHR 0x0A \<notin> set (spelltype_long_name eng school))
        \<and> CHR 0x0A \<notin> set andc \<and> CHR 0x0A \<notin> set comma
      \<longrightarrow> CHR 0x0A \<notin> set (terse_spell_list eng andc comma item))"
proof (intro conjI impI)
  have "terse_spell_desc eng = (\<lambda>spell. spell_title eng spell @ '' (L''
          @ show_int (spell_difficulty eng spell) @ '' '' @ spell_schools eng spell @ '')'')"
    by (rule ext) (simp add: terse_spell_desc_def)
  then show "terse_spell_list eng andc comma item
     = ''Spells: '' @ comma_separated_line andc comma
         (map (\<lambda>spell. spell_title eng spell @ '' (L'' @ show_int (spell_difficulty eng spell)
                          @ '' '' @ spell_schools eng spell @ '')'')
              (spells_in_book eng item))"
    by (simp only: terse_spell_list_eq)
  show "prefix ''Spells: '' (terse_spell_list eng andc comma item)"
    by (simp only: terse_spell_list_eq prefixI)
next
  assume a: "(\<forall>spell \<in> set (spells_in_book eng item). CHR 0x0A \<notin> set (spell_title eng spell))
        \<and> (\<forall>school \<in> set (spschools_range eng). CHR 0x0A \<notin> set (spelltype_long_name eng school))
        \<and> CHR 0x0A \<notin> set andc \<and> CHR 0x0A \<notin> set comma"
  let ?descs = "map (terse_spell_desc eng) (spells_in_book eng item)"
  from a have "\<forall>x \<in> set ?descs. CHR 0x0A \<notin> set x"
    by (auto simp: terse_spell_desc_no_newline)
  with a comma_separated_line_chars [of andc comma ?descs]
  have "CHR 0x0A \<notin> set (comma_separated_line andc comma ?descs)" by blast
  then show "CHR 0x0A \<notin> set (terse_spell_list eng andc comma item)"
    by (simp add: terse_spell_list_eq)
qed

lemma demo_schools:
  "spell_schools demo_engine SPELL_FREEZE = ''Ice''"
  "spell_schools demo_engine SPELL_IOOD = ''Conjuration/Translocation''"
  by (simp_all add: spell_schools_def demo_engine_def)

lemma demo_book_spells: "spells_in_book demo_engine demo_book = [SPELL_FREEZE, SPELL_IOOD]"
  by (simp add: demo_engine_def demo_book_def)

lemma demo_titles:
  "spell_title demo_engine SPELL_FREEZE = ''Freeze''"
  "spell_title demo_engine SPELL_IOOD = ''Orb of Destruction''"
  "spell_difficulty demo_engine SPELL_FREEZE = 1"
  "spell_difficulty demo_engine SPELL_IOOD = 7"
  by (simp_all add: demo_engine_def)

lemma demo_terse_descs:
  "terse_spell_desc demo_engine SPELL_FREEZE = ''Freeze (L1 Ice)''"
  "terse_spell_desc demo_engine SPELL_IOOD = ''Orb of Destruction (L7 Conjuration/Translocation)''"
  by (simp_all add: terse_spell_desc_def demo_schools demo_titles show_int_digits)

lemma demo_terse:
  "terse_spell_list demo_engine '' and '' '', '' demo_book
     = ''Spells: Freeze (L1 Ice) and Orb of Destruction (L7 Conjuration/Translocation)''"
  by (simp add: terse_spell_list_eq demo_book_spells demo_terse_descs)

text \<open>The terse list of the book of the small instance, with the separators \<open>" and "\<close> and \<open>", "\<close>.\<close>

theorem terse_spell_list_single_line_witness:
  "list_all (\<lambda>spell. CHR 0x0A \<notin> set (spell_title demo_engine spell))
      (spells_in_book demo_engine demo_book)
   \<and> list_all (\<lambda>school. CHR 0x0A \<notin> set (spelltype_long_name demo_engine school))
      (spschools_range demo_engine)
   \<and> CHR 0x0A \<notin> set '' and '' \<and> CHR 0x0A \<notin> set '', ''
   \<and> terse_spell_list demo_engine '' and '' '', '' demo_book
       = ''Spells: Freeze (L1 Ice) and Orb of Destruction (L7 Conjuration/Translocation)''
   \<and> CHR 0x0A \<notin> set (terse_spell_list demo_engine '' and '' '', '' demo_book)"
proof -
  have h1: "list_all (\<lambda>spell. CHR 0x0A \<notin> set (spell_title demo_engine spell))
      (spells_in_book demo_engine demo_book)"
    by (simp add: demo_engine_def demo_book_def)
  have h2: "list_all (\<lambda>school. CHR 0x0A \<notin> set (spelltype_long_name demo_engine school))
      (spschools_range demo_engine)"
    by (simp add: demo_engine_def)
  have h3: "CHR 0x0A \<notin> set '' and ''" and h4: "CHR 0x0A \<notin> set '', ''" by simp_all
  from h1 have b1: "\<forall>spell \<in> set (spells_in_book demo_engine demo_book).
      CHR 0x0A \<notin> set (spell_title demo_engine spell)"
    by (simp only: list_all_iff)
  from h2 have b2: "\<forall>school \<in> set (spschools_range demo_engine).
      CHR 0x0A \<notin> set (spelltype_long_name demo_engine school)"
    by (simp only: list_all_iff)
  from terse_spell_list_single_line [of demo_engine "'' and ''" "'', ''" demo_book] b1 b2 h3 h4
  have c: "CHR 0x0A \<notin> set (terse_spell_list demo_engine '' and '' '', '' demo_book)"
    by blast
  show ?thesis by (intro conjI) (rule h1 h2 h3 h4 demo_terse c)+
qed

subsection \<open>What the range and effect strings depend on\<close>

lemma range_string_owner:
  "range_string eng st spell (Some mon) hit_dice =
     (if 0 < spell_range eng spell (mons_power_for_hd eng spell hit_dice) False
         \<and> \<not> testbits (get_spell_flags eng spell) selfench
      then if need_save st \<and> in_bounds eng (pos_mi mon)
              \<and> grid_distance eng (you_pos st) (pos_mi mon)
                   \<le> spell_range eng spell (mons_power_for_hd eng spell hit_dice) False
           then ''(<lightred>'' @ show_int (spell_range eng spell (mons_power_for_hd eng spell hit_dice) False)
                  @ ''</lightred>)''
           else ''(<lightgray>'' @ show_int (spell_range eng spell (mons_power_for_hd eng spell hit_dice) False)
                  @ ''</lightgray>)''
      else '''')"
  by (simp add: range_string_def Let_def)

lemma range_string_no_owner: "range_string eng st spell None hit_dice = ''''"
  by (simp add: range_string_def Let_def)

lemma effect_string_plain_no_state:
  assumes "\<not> testbits (get_spell_flags eng spell) WL_check"
    and "spell_hd eng spell m1 = spell_hd eng spell m2"
  shows "effect_string_plain eng st1 spell m1 = effect_string_plain eng st2 spell m2"
  using assms by (simp add: effect_string_plain_def Let_def)

lemma effect_string_owner:
  assumes "spell \<noteq> SPELL_CONJURE_LIVING_SPELLS"
  shows "effect_string eng st spell (Some mon) = Some
     (if spell_hd eng spell mon = 0 then ''''
      else if testbits (get_spell_flags eng spell) WL_check then
        (if \<not> need_save st \<or> attitude_mi mon = ATT_FRIENDLY then ''''
         else if you_immune_to_hex st spell then ''(immune)''
         else ''('' @ show_int (hex_chance eng st spell mon) @ ''%)'')
      else if spell = SPELL_SMITING then ''7-17''
      else if num (spell_damage eng spell (spell_hd eng spell mon)) = 0
              \<or> size_dd (spell_damage eng spell (spell_hd eng spell mon)) = 0 then ''''
      else ''(''
           @ (if spell = SPELL_MARSHLIGHT then ''2x''
              else if spell = SPELL_CONJURE_BALL_LIGHTNING then ''3x'' else '''')
           @ show_int (num (spell_damage eng spell (spell_hd eng spell mon))) @ ''d''
           @ show_int (size_dd (spell_damage eng spell (spell_hd eng spell mon))) @ '')'')"
  using assms by (simp add: effect_string_plain_spell effect_string_plain_def Let_def)

text \<open>
  \<open>_spell_damage\<close> and \<open>_spell_schools\<close> do not use the parts of the engine that look at
  the map, the player or the monster, nor the source of the elemental colours.
\<close>

lemma spell_damage_frame:
  "spell_damage (eng\<lparr>in_bounds := b, grid_distance := g, hex_chance := h,
                      spell_hd_mi := s, element_colour := c\<rparr>) spell hit_dice
     = spell_damage eng spell hit_dice"
  by (simp add: spell_damage_def Let_def cong: if_cong)

lemma spell_schools_frame:
  "spell_schools (eng\<lparr>in_bounds := b, grid_distance := g, hex_chance := h,
                       spell_hd_mi := s, element_colour := c\<rparr>) spell
     = spell_schools eng spell"
  by (simp add: spell_schools_def Let_def cong: if_cong)

text \<open>
  C3, as amended. For a spell and hit dice: \<open>_spell_damage\<close> and \<open>_spell_schools\<close> get the
  spell (and the hit dice) only, no game state and no monster, and they do not depend on
  what the engine tells about the map, the player, the monster or the elemental
  colours. The range string is not a function of the spell and the hit dice alone.
  Without a monster owner it is empty. With one it is empty when the range \<open>R\<close> of the
  spell at these hit dice is not positive or the spell is a self-enchantment, and
  otherwise it is \<open>(<col>R</col>)\<close>, where \<open>col\<close> is \<open>lightred\<close> when a game is in
  progress, the monster is in bounds and its grid distance to the player is at most
  \<open>R\<close>, and \<open>lightgray\<close> otherwise; so two evaluations that agree on this condition
  return the same string. The effect string is empty without a monster owner. With one,
  for a spell other than Conjure Living Spells, it is empty when the hit dice of
  \<open>_spell_hd\<close> are 0; for a spell that checks willpower it is empty, \<open>(immune)\<close> or the
  hex chance, by the save state, the attitude of the monster and the player; it is
  \<open>7-17\<close> for Smiting; and otherwise it is built from the dice of \<open>_spell_damage\<close> at
  the spell and these hit dice. So for a spell that does not check willpower it is the
  same for two states and two monsters with the same hit dice of \<open>_spell_hd\<close>.
\<close>

theorem range_and_effect_strings_depend_on:
  "spell_damage (eng\<lparr>in_bounds := b, grid_distance := g, hex_chance := h,
                      spell_hd_mi := s, element_colour := c\<rparr>) spell hit_dice
     = spell_damage eng spell hit_dice
   \<and> spell_schools (eng\<lparr>in_bounds := b, grid_distance := g, hex_chance := h,
                        spell_hd_mi := s, element_colour := c\<rparr>) spell
     = spell_schools eng spell
   \<and> range_string eng st spell None hit_dice = ''''
   \<and> range_string eng st spell (Some mon) hit_dice =
       (if 0 < spell_range eng spell (mons_power_for_hd eng spell hit_dice) False
           \<and> \<not> testbits (get_spell_flags eng spell) selfench
        then if need_save st \<and> in_bounds eng (pos_mi mon)
                \<and> grid_distance eng (you_pos st) (pos_mi mon)
                     \<le> spell_range eng spell (mons_power_for_hd eng spell hit_dice) False
             then ''(<lightred>''
                    @ show_int (spell_range eng spell (mons_power_for_hd eng spell hit_dice) False)
                    @ ''</lightred>)''
             else ''(<lightgray>''
                    @ show_int (spell_range eng spell (mons_power_for_hd eng spell hit_dice) False)
                    @ ''</lightgray>)''
        else '''')
   \<and> ((need_save st1 \<and> in_bounds eng (pos_mi m1)
         \<and> grid_distance eng (you_pos st1) (pos_mi m1)
              \<le> spell_range eng spell (mons_power_for_hd eng spell hit_dice) False)
        = (need_save st2 \<and> in_bounds eng (pos_mi m2)
         \<and> grid_distance eng (you_pos st2) (pos_mi m2)
              \<le> spell_range eng spell (mons_power_for_hd eng spell hit_dice) False)
       \<longrightarrow> range_string eng st1 spell (Some m1) hit_dice
            = range_string eng st2 spell (Some m2) hit_dice)
   \<and> effect_string eng st spell None = Some ''''
   \<and> (spell \<noteq> SPELL_CONJURE_LIVING_SPELLS \<longrightarrow>
        effect_string eng st spell (Some mon) = Some
          (if spell_hd eng spell mon = 0 then ''''
           else if testbits (get_spell_flags eng spell) WL_check then
             (if \<not> need_save st \<or> attitude_mi mon = ATT_FRIENDLY then ''''
              else if you_immune_to_hex st spell then ''(immune)''
              else ''('' @ show_int (hex_chance eng st spell mon) @ ''%)'')
           else if spell = SPELL_SMITING then ''7-17''
           else if num (spell_damage eng spell (spell_hd eng spell mon)) = 0
                   \<or> size_dd (spell_damage eng spell (spell_hd eng spell mon)) = 0 then ''''
           else ''(''
                @ (if spell = SPELL_MARSHLIGHT then ''2x''
                   else if spell = SPELL_CONJURE_BALL_LIGHTNING then ''3x'' else '''')
                @ show_int (num (spell_damage eng spell (spell_hd eng spell mon))) @ ''d''
                @ show_int (size_dd (spell_damage eng spell (spell_hd eng spell mon))) @ '')''))
   \<and> (spell \<noteq> SPELL_CONJURE_LIVING_SPELLS
        \<and> \<not> testbits (get_spell_flags eng spell) WL_check
        \<and> spell_hd eng spell m1 = spell_hd eng spell m2
      \<longrightarrow> effect_string eng st1 spell (Some m1) = effect_string eng st2 spell (Some m2))"
proof (intro conjI impI)
  show "spell_damage (eng\<lparr>in_bounds := b, grid_distance := g, hex_chance := h,
                      spell_hd_mi := s, element_colour := c\<rparr>) spell hit_dice
     = spell_damage eng spell hit_dice"
    by (rule spell_damage_frame)
  show "spell_schools (eng\<lparr>in_bounds := b, grid_distance := g, hex_chance := h,
                        spell_hd_mi := s, element_colour := c\<rparr>) spell
     = spell_schools eng spell"
    by (rule spell_schools_frame)
  show "range_string eng st spell None hit_dice = ''''"
    by (rule range_string_no_owner)
  show "range_string eng st spell (Some mon) hit_dice =
       (if 0 < spell_range eng spell (mons_power_for_hd eng spell hit_dice) False
           \<and> \<not> testbits (get_spell_flags eng spell) selfench
        then if need_save st \<and> in_bounds eng (pos_mi mon)
                \<and> grid_distance eng (you_pos st) (pos_mi mon)
                     \<le> spell_range eng spell (mons_power_for_hd eng spell hit_dice) False
             then ''(<lightred>''
                    @ show_int (spell_range eng spell (mons_power_for_hd eng spell hit_dice) False)
                    @ ''</lightred>)''
             else ''(<lightgray>''
                    @ show_int (spell_range eng spell (mons_power_for_hd eng spell hit_dice) False)
                    @ ''</lightgray>)''
        else '''')"
    by (rule range_string_owner)
  show "effect_string eng st spell None = Some ''''"
    by (rule effect_string_no_owner)
next
  assume "(need_save st1 \<and> in_bounds eng (pos_mi m1)
         \<and> grid_distance eng (you_pos st1) (pos_mi m1)
              \<le> spell_range eng spell (mons_power_for_hd eng spell hit_dice) False)
        = (need_save st2 \<and> in_bounds eng (pos_mi m2)
         \<and> grid_distance eng (you_pos st2) (pos_mi m2)
              \<le> spell_range eng spell (mons_power_for_hd eng spell hit_dice) False)"
  then show "range_string eng st1 spell (Some m1) hit_dice
          = range_string eng st2 spell (Some m2) hit_dice"
    by (simp only: range_string_owner)
next
  assume "spell \<noteq> SPELL_CONJURE_LIVING_SPELLS"
  then show "effect_string eng st spell (Some mon) = Some
          (if spell_hd eng spell mon = 0 then ''''
           else if testbits (get_spell_flags eng spell) WL_check then
             (if \<not> need_save st \<or> attitude_mi mon = ATT_FRIENDLY then ''''
              else if you_immune_to_hex st spell then ''(immune)''
              else ''('' @ show_int (hex_chance eng st spell mon) @ ''%)'')
           else if spell = SPELL_SMITING then ''7-17''
           else if num (spell_damage eng spell (spell_hd eng spell mon)) = 0
                   \<or> size_dd (spell_damage eng spell (spell_hd eng spell mon)) = 0 then ''''
           else ''(''
                @ (if spell = SPELL_MARSHLIGHT then ''2x''
                   else if spell = SPELL_CONJURE_BALL_LIGHTNING then ''3x'' else '''')
                @ show_int (num (spell_damage eng spell (spell_hd eng spell mon))) @ ''d''
                @ show_int (size_dd (spell_damage eng spell (spell_hd eng spell mon))) @ '')'')"
    by (rule effect_string_owner)
next
  assume a: "spell \<noteq> SPELL_CONJURE_LIVING_SPELLS
        \<and> \<not> testbits (get_spell_flags eng spell) WL_check
        \<and> spell_hd eng spell m1 = spell_hd eng spell m2"
  then have "effect_string_plain eng st1 spell m1 = effect_string_plain eng st2 spell m2"
    by (simp add: effect_string_plain_no_state)
  with a show "effect_string eng st1 spell (Some m1) = effect_string eng st2 spell (Some m2)"
    by (simp add: effect_string_plain_spell)
qed

lemma demo_range_freeze_near:
  "range_string demo_engine demo_state SPELL_FREEZE (Some demo_monster) 5
     = ''(<lightred>7</lightred>)''"
  by (simp add: range_string_owner demo_engine_def demo_state_def demo_monster_def testbits_def
      show_int_digits)

lemma demo_range_freeze_far:
  "range_string demo_engine (demo_state\<lparr>you_pos := (40, 40)\<rparr>) SPELL_FREEZE (Some demo_monster) 5
     = ''(<lightgray>7</lightgray>)''"
  by (simp add: range_string_owner demo_engine_def demo_state_def demo_monster_def testbits_def
      show_int_digits)

text \<open>
  C3, as stated, makes the range string the same whatever the position of the player.
  With the monster at (12, 10) and range 7, the string is red for a player at (10, 10)
  and grey for a player at (40, 40).
\<close>

theorem range_string_depends_on_player_position:
  "range_string demo_engine demo_state SPELL_FREEZE (Some demo_monster) 5
     = ''(<lightred>7</lightred>)''
   \<and> range_string demo_engine (demo_state\<lparr>you_pos := (40, 40)\<rparr>) SPELL_FREEZE
        (Some demo_monster) 5
     = ''(<lightgray>7</lightgray>)''
   \<and> range_string demo_engine demo_state SPELL_FREEZE (Some demo_monster) 5
     \<noteq> range_string demo_engine (demo_state\<lparr>you_pos := (40, 40)\<rparr>) SPELL_FREEZE
        (Some demo_monster) 5"
  by (simp add: demo_range_freeze_near demo_range_freeze_far)

text \<open>The amended statement at two states and two monsters that are both in range.\<close>

theorem range_and_effect_strings_depend_on_witness:
  "((need_save demo_state \<and> in_bounds demo_engine (pos_mi demo_monster)
       \<and> grid_distance demo_engine (you_pos demo_state) (pos_mi demo_monster)
            \<le> spell_range demo_engine SPELL_FREEZE (mons_power_for_hd demo_engine SPELL_FREEZE 5) False)
      = (need_save (demo_state\<lparr>you_pos := (11, 12)\<rparr>)
       \<and> in_bounds demo_engine (pos_mi (demo_monster\<lparr>pos_mi := (13, 11)\<rparr>))
       \<and> grid_distance demo_engine (you_pos (demo_state\<lparr>you_pos := (11, 12)\<rparr>))
            (pos_mi (demo_monster\<lparr>pos_mi := (13, 11)\<rparr>))
            \<le> spell_range demo_engine SPELL_FREEZE (mons_power_for_hd demo_engine SPELL_FREEZE 5) False))
   \<and> range_string demo_engine demo_state SPELL_FREEZE (Some demo_monster) 5
       = range_string demo_engine (demo_state\<lparr>you_pos := (11, 12)\<rparr>) SPELL_FREEZE
           (Some (demo_monster\<lparr>pos_mi := (13, 11)\<rparr>)) 5
   \<and> range_string demo_engine demo_state SPELL_FREEZE (Some demo_monster) 5
       = ''(<lightred>7</lightred>)''
   \<and> SPELL_FREEZE \<noteq> SPELL_CONJURE_LIVING_SPELLS
   \<and> \<not> testbits (get_spell_flags demo_engine SPELL_FREEZE) WL_check
   \<and> spell_hd demo_engine SPELL_FREEZE demo_monster
       = spell_hd demo_engine SPELL_FREEZE (demo_monster\<lparr>pos_mi := (13, 11)\<rparr>)
   \<and> effect_string demo_engine demo_state SPELL_FREEZE (Some demo_monster)
       = effect_string demo_engine (demo_state\<lparr>you_pos := (11, 12)\<rparr>) SPELL_FREEZE
           (Some (demo_monster\<lparr>pos_mi := (13, 11)\<rparr>))
   \<and> effect_string demo_engine demo_state SPELL_FREEZE (Some demo_monster) = Some ''(1d11)''"
proof -
  let ?st2 = "demo_state\<lparr>you_pos := (11, 12)\<rparr>" and ?m2 = "demo_monster\<lparr>pos_mi := (13, 11)\<rparr>"
  have h1: "(need_save demo_state \<and> in_bounds demo_engine (pos_mi demo_monster)
       \<and> grid_distance demo_engine (you_pos demo_state) (pos_mi demo_monster)
            \<le> spell_range demo_engine SPELL_FREEZE (mons_power_for_hd demo_engine SPELL_FREEZE 5) False)
      = (need_save ?st2 \<and> in_bounds demo_engine (pos_mi ?m2)
       \<and> grid_distance demo_engine (you_pos ?st2) (pos_mi ?m2)
            \<le> spell_range demo_engine SPELL_FREEZE (mons_power_for_hd demo_engine SPELL_FREEZE 5) False)"
    by (simp add: demo_engine_def demo_state_def demo_monster_def)
  have h2: "SPELL_FREEZE \<noteq> SPELL_CONJURE_LIVING_SPELLS" by simp
  have h3: "\<not> testbits (get_spell_flags demo_engine SPELL_FREEZE) WL_check"
    by (simp add: demo_engine_def testbits_def)
  have h4: "spell_hd demo_engine SPELL_FREEZE demo_monster = spell_hd demo_engine SPELL_FREEZE ?m2"
    by (simp add: spell_hd_def demo_engine_def demo_monster_def)
  note inst = range_and_effect_strings_depend_on [where eng = demo_engine and st = demo_state
      and mon = demo_monster and spell = SPELL_FREEZE and hit_dice = 5 and ?st1.0 = demo_state
      and ?m1.0 = demo_monster and ?st2.0 = ?st2 and ?m2.0 = ?m2]
  from inst h1 have c1: "range_string demo_engine demo_state SPELL_FREEZE (Some demo_monster) 5
       = range_string demo_engine ?st2 SPELL_FREEZE (Some ?m2) 5"
    by blast
  from inst h2 h3 h4 have c2: "effect_string demo_engine demo_state SPELL_FREEZE (Some demo_monster)
       = effect_string demo_engine ?st2 SPELL_FREEZE (Some ?m2)"
    by blast
  have hd5: "spell_hd demo_engine SPELL_FREEZE demo_monster = 5"
    by (simp add: spell_hd_def demo_engine_def demo_monster_def)
  have dam: "spell_damage demo_engine SPELL_FREEZE 5 = \<lparr>num = 1, size_dd = 11\<rparr>"
    by (simp add: spell_damage_def demo_engine_def)
  from inst h2 have "effect_string demo_engine demo_state SPELL_FREEZE (Some demo_monster) = Some
          (if spell_hd demo_engine SPELL_FREEZE demo_monster = 0 then ''''
           else if testbits (get_spell_flags demo_engine SPELL_FREEZE) WL_check then
             (if \<not> need_save demo_state \<or> attitude_mi demo_monster = ATT_FRIENDLY then ''''
              else if you_immune_to_hex demo_state SPELL_FREEZE then ''(immune)''
              else ''('' @ show_int (hex_chance demo_engine demo_state SPELL_FREEZE demo_monster) @ ''%)'')
           else if SPELL_FREEZE = SPELL_SMITING then ''7-17''
           else if num (spell_damage demo_engine SPELL_FREEZE (spell_hd demo_engine SPELL_FREEZE demo_monster)) = 0
                   \<or> size_dd (spell_damage demo_engine SPELL_FREEZE (spell_hd demo_engine SPELL_FREEZE demo_monster)) = 0 then ''''
           else ''(''
                @ (if SPELL_FREEZE = SPELL_MARSHLIGHT then ''2x''
                   else if SPELL_FREEZE = SPELL_CONJURE_BALL_LIGHTNING then ''3x'' else '''')
                @ show_int (num (spell_damage demo_engine SPELL_FREEZE (spell_hd demo_engine SPELL_FREEZE demo_monster))) @ ''d''
                @ show_int (size_dd (spell_damage demo_engine SPELL_FREEZE (spell_hd demo_engine SPELL_FREEZE demo_monster))) @ '')'')"
    by blast
  with h3 have c3: "effect_string demo_engine demo_state SPELL_FREEZE (Some demo_monster) = Some ''(1d11)''"
    by (simp add: hd5 dam show_int_digits)
  have c4: "range_string demo_engine demo_state SPELL_FREEZE (Some demo_monster) 5
       = ''(<lightred>7</lightred>)''"
    by (rule demo_range_freeze_near)
  show ?thesis by (intro conjI) (rule h1 c1 c4 h2 h3 h4 c2 c3)+
qed

end
